theory Spec2Isabelle
  imports
    Complex_Main
    "HOL-Library.Product_Lexorder"
    "HOL-Library.List_Lexorder"
    "HOL-Library.Char_ord"
    "HOL-Library.Multiset"
    "HOL-Library.Sublist"
begin

section \<open>Data model (models.py, schemas.py)\<close>

text \<open>
  The backend keeps its data in relational tables and every handler reads and writes them
  through an ORM session. A table is modelled as the list of its rows in retrieval order,
  the database as a record of tables, and a handler as a function from the database (and
  the request) to a response or an error, together with the database it leaves behind.

  Modelling decisions, all of which concern what the engine does rather than what the
  handlers do:
  \<^item> \<open>Float\<close> columns and Python floats are exact real numbers: rounding is not modelled.
  \<^item> A \<open>date\<close> is the triple (year, month, day), ordered lexicographically, which is the
    order of Python's \<open>date\<close> on valid dates.
  \<^item> Nullable text columns are \<open>string option\<close>. Numeric columns are never null: no
    create schema admits a null there.
  \<^item> \<open>created_at\<close> and \<open>updated_at\<close> are stamped by the engine and read by no handler;
    they are left out.
  \<^item> An update schema is a record of optional fields: \<open>None\<close> is a field the request did
    not set (\<open>dict(exclude_unset=True)\<close> drops it). For a nullable column the field is a
    doubly optional value, so that a request can also set it to null.
\<close>

type_synonym date = "nat \<times> nat \<times> nat"

definition date_year :: "date \<Rightarrow> nat" where
  "date_year d = fst d"

definition date_month :: "date \<Rightarrow> nat" where
  "date_month d = fst (snd d)"

definition date_day :: "date \<Rightarrow> nat" where
  "date_day d = snd (snd d)"

definition is_leap :: "nat \<Rightarrow> bool" where
  "is_leap y = (y mod 4 = 0 \<and> (y mod 100 \<noteq> 0 \<or> y mod 400 = 0))"

definition days_in_month :: "nat \<Rightarrow> nat \<Rightarrow> nat" where
  "days_in_month y m =
     (if m = 2 then (if is_leap y then 29 else 28)
      else if m = 4 \<or> m = 6 \<or> m = 9 \<or> m = 11 then 30 else 31)"

text \<open>The values Python's \<open>date\<close> constructor accepts (\<open>MINYEAR = 1\<close>, \<open>MAXYEAR = 9999\<close>).\<close>

definition valid_date :: "date \<Rightarrow> bool" where
  "valid_date d =
     (1 \<le> date_year d \<and> date_year d \<le> 9999 \<and> 1 \<le> date_month d \<and> date_month d \<le> 12 \<and>
      1 \<le> date_day d \<and> date_day d \<le> days_in_month (date_year d) (date_month d))"

datatype PaymentType = PAID | PARTIAL | CREDIT

fun PaymentType_value :: "PaymentType \<Rightarrow> string" where
  "PaymentType_value PAID = ''Paid''"
| "PaymentType_value PARTIAL = ''Partial''"
| "PaymentType_value CREDIT = ''Credit''"

datatype ExpenseCategory = RENT | ELECTRICITY | WATER | LABOUR | TRANSPORT | TAX | OTHER

record ProductType =
  id :: nat
  name :: string
  description :: "string option"

record Buyer =
  id :: nat
  name :: string
  phone :: "string option"
  address :: "string option"
  "notes" :: "string option"
  opening_balance :: real

record Purchase =
  id :: nat
  date :: date
  seller_name :: string
  seller_phone :: "string option"
  pickup_location :: "string option"
  scrap_type :: "string option"
  transport_service :: "string option"
  transport_cost :: real
  quantity :: real
  unit :: "string option"
  price_per_unit :: real
  total_purchase_cost :: real
  "notes" :: "string option"

record Sale =
  id :: nat
  date :: date
  buyer_id :: nat
  payment_type :: PaymentType
  payment_received_now :: real
  total_amount :: real
  "notes" :: "string option"

record SaleItem =
  id :: nat
  sale_id :: nat
  product_type_id :: nat
  quantity :: real
  unit :: "string option"
  price_per_unit :: real
  total_price :: real

record Payment =
  id :: nat
  date :: date
  buyer_id :: nat
  amount :: real
  payment_method :: "string option"
  "notes" :: "string option"

record Expense =
  id :: nat
  date :: date
  category :: ExpenseCategory
  amount :: real
  description :: "string option"

record db =
  product_types :: "ProductType list"
  buyers :: "Buyer list"
  purchases :: "Purchase list"
  sales :: "Sale list"
  sale_items :: "SaleItem list"
  payments :: "Payment list"
  expenses :: "Expense list"

subsection \<open>Request and response schemas\<close>

record BuyerResponse =
  id :: nat
  name :: string
  phone :: "string option"
  address :: "string option"
  "notes" :: "string option"
  opening_balance :: real
  total_sales :: real
  total_payments :: real
  outstanding_balance :: real

record BuyerListResponse =
  id :: nat
  name :: string
  phone :: "string option"
  outstanding_balance :: real

record txn =
  date :: date
  type :: string
  description :: string
  debit :: real
  credit :: real

record LedgerEntry =
  date :: date
  type :: string
  description :: string
  debit :: real
  credit :: real
  balance :: real

record BuyerLedgerResponse =
  buyer :: BuyerResponse
  entries :: "LedgerEntry list"
  opening_balance :: real
  closing_balance :: real

record PurchaseCreate =
  date :: date
  seller_name :: string
  seller_phone :: "string option"
  pickup_location :: "string option"
  transport_service :: "string option"
  transport_cost :: real
  quantity :: real
  unit :: string
  price_per_unit :: real
  "notes" :: "string option"

record PurchaseUpdate =
  date :: "date option"
  seller_name :: "string option"
  seller_phone :: "string option option"
  pickup_location :: "string option option"
  transport_service :: "string option option"
  transport_cost :: "real option"
  quantity :: "real option"
  unit :: "string option option"
  price_per_unit :: "real option"
  "notes" :: "string option option"

record SaleItemCreate =
  product_type_id :: nat
  quantity :: real
  unit :: string
  price_per_unit :: real

record SaleCreate =
  date :: date
  buyer_id :: nat
  payment_type :: PaymentType
  payment_received_now :: real
  "notes" :: "string option"
  sale_items :: "SaleItemCreate list"

record SaleUpdate =
  date :: "date option"
  buyer_id :: "nat option"
  payment_type :: "PaymentType option"
  payment_received_now :: "real option"
  "notes" :: "string option option"

record DashboardSummary =
  today_purchases :: real
  today_sales :: real
  today_expenses :: real
  total_purchases :: real
  total_sales :: real
  total_expenses :: real
  total_profit :: real
  total_receivable :: real

record MonthlyStats =
  month :: string
  purchases :: real
  sales :: real
  expenses :: real
  profit :: real

record TopBuyerStats =
  buyer_name :: string
  outstanding_amount :: real

text \<open>
  What a handler raises. \<open>HTTPException\<close> carries the status code and the detail the
  handler gives it; \<open>RequestValidationError\<close> is the framework's rejection of a query
  parameter outside its declared bounds (\<open>Query(ge=..., le=...)\<close>); \<open>IntegrityError\<close> is
  the engine's rejection of a row whose foreign key has no target; \<open>ValueError\<close> is
  Python's, from \<open>date.replace\<close> with a year below \<open>MINYEAR\<close>; \<open>IndexError\<close> is
  Python's, from indexing a list out of range.
\<close>

datatype error =
    HTTPException nat string
  | RequestValidationError
  | IntegrityError
  | ValueError
  | IndexError

subsection \<open>The session's primitives\<close>

text \<open>
  The engine gives a new row a primary key that no row of the table has; it is modelled as
  one more than the largest key present.
\<close>

definition next_id :: "nat list \<Rightarrow> nat" where
  "next_id ids = Suc (fold max ids 0)"

text \<open>
  \<open>query.first()\<close> is \<open>find\<close> on the table. The object it returns is the session's handle
  on that row: assigning to its attributes and committing rewrites that row, and
  \<open>db.delete\<close> removes it.
\<close>

fun update_first :: "('a \<Rightarrow> bool) \<Rightarrow> ('a \<Rightarrow> 'a) \<Rightarrow> 'a list \<Rightarrow> 'a list" where
  "update_first P f [] = []"
| "update_first P f (x # xs) = (if P x then f x # xs else x # update_first P f xs)"

fun delete_first :: "('a \<Rightarrow> bool) \<Rightarrow> 'a list \<Rightarrow> 'a list" where
  "delete_first P [] = []"
| "delete_first P (x # xs) = (if P x then xs else x # delete_first P xs)"

text \<open>Decimal formatting of a non-negative integer, as \<open>str\<close> and f-strings do it.\<close>

definition digit_char :: "nat \<Rightarrow> char" where
  "digit_char d = ''0123456789'' ! d"

fun show_nat :: "nat \<Rightarrow> string" where
  "show_nat n =
     (if n < 10 then [digit_char n] else show_nat (n div 10) @ [digit_char (n mod 10)])"

declare show_nat.simps [simp del]

text \<open>
  SQL's \<open>LIKE\<close>: in the pattern \<open>%\<close> stands for any run of characters and \<open>_\<close> for any
  one character; every other character stands for itself. The first argument is the
  pattern.
\<close>

fun like :: "string \<Rightarrow> string \<Rightarrow> bool" where
  "like [] s = (s = [])"
| "like (p # ps) s =
     (if p = CHR ''%'' then
        (like ps s \<or> (case s of [] \<Rightarrow> False | c # t \<Rightarrow> like (p # ps) t))
      else if p = CHR ''_'' then (case s of [] \<Rightarrow> False | c # t \<Rightarrow> like ps t)
      else (case s of [] \<Rightarrow> False | c # t \<Rightarrow> c = p \<and> like ps t))"

text \<open>The optional inclusive date range of the list and ledger queries.\<close>

definition in_range :: "date option \<Rightarrow> date option \<Rightarrow> date \<Rightarrow> bool" where
  "in_range start_date end_date d =
     ((case start_date of None \<Rightarrow> True | Some s \<Rightarrow> s \<le> d) \<and>
      (case end_date of None \<Rightarrow> True | Some e \<Rightarrow> d \<le> e))"

section \<open>Buyers (models.py, routers/buyers.py)\<close>

text \<open>The relationships \<open>Buyer.sales\<close> and \<open>Buyer.payments\<close>: the rows whose foreign key is the buyer's id.\<close>

definition Buyer_sales :: "db \<Rightarrow> Buyer \<Rightarrow> Sale list" where
  "Buyer_sales d b = filter (\<lambda>s. Sale.buyer_id s = Buyer.id b) (db.sales d)"

definition Buyer_payments :: "db \<Rightarrow> Buyer \<Rightarrow> Payment list" where
  "Buyer_payments d b = filter (\<lambda>p. Payment.buyer_id p = Buyer.id b) (db.payments d)"

text \<open>The three properties of the \<open>Buyer\<close> model.\<close>

definition Buyer_total_sales :: "db \<Rightarrow> Buyer \<Rightarrow> real" where
  "Buyer_total_sales d b = sum_list (map Sale.total_amount (Buyer_sales d b))"

definition Buyer_total_payments :: "db \<Rightarrow> Buyer \<Rightarrow> real" where
  "Buyer_total_payments d b = sum_list (map Payment.amount (Buyer_payments d b))"

definition Buyer_outstanding_balance :: "db \<Rightarrow> Buyer \<Rightarrow> real" where
  "Buyer_outstanding_balance d b =
     Buyer.opening_balance b + Buyer_total_sales d b - Buyer_total_payments d b"

text \<open>
  \<open>BuyerResponse\<close> is filled from the model object's attributes (\<open>from_attributes\<close>), the
  three properties among them.
\<close>

definition BuyerResponse_of :: "db \<Rightarrow> Buyer \<Rightarrow> BuyerResponse" where
  "BuyerResponse_of d b =
     \<lparr> BuyerResponse.id = Buyer.id b,
       name = Buyer.name b,
       phone = Buyer.phone b,
       address = Buyer.address b,
       notes = Buyer.notes b,
       opening_balance = Buyer.opening_balance b,
       total_sales = Buyer_total_sales d b,
       total_payments = Buyer_total_payments d b,
       outstanding_balance = Buyer_outstanding_balance d b \<rparr>"

text \<open>\<open>get_buyers_list\<close>: the buyers ordered by name, each with a balance computed in the loop.\<close>

definition get_buyers_list :: "db \<Rightarrow> BuyerListResponse list" where
  "get_buyers_list d =
     map (\<lambda>buyer.
            let total_sales = sum_list (map Sale.total_amount (Buyer_sales d buyer));
                total_payments = sum_list (map Payment.amount (Buyer_payments d buyer));
                outstanding = Buyer.opening_balance buyer + total_sales - total_payments
            in \<lparr> BuyerListResponse.id = Buyer.id buyer,
                 name = Buyer.name buyer,
                 phone = Buyer.phone buyer,
                 outstanding_balance = outstanding \<rparr>)
         (sort_key Buyer.name (db.buyers d))"

definition get_buyer :: "db \<Rightarrow> nat \<Rightarrow> error + BuyerResponse" where
  "get_buyer d bid =
     (case find (\<lambda>b. Buyer.id b = bid) (db.buyers d) of
        None \<Rightarrow> Inl (HTTPException 404 ''Buyer not found'')
      | Some b \<Rightarrow> Inr (BuyerResponse_of d b))"

text \<open>
  \<open>delete_buyer\<close>: both rejections are raised before the session is touched, so the
  database they leave is the one they found.
\<close>

definition delete_buyer :: "db \<Rightarrow> nat \<Rightarrow> (error + string) \<times> db" where
  "delete_buyer d bid =
     (case find (\<lambda>b. Buyer.id b = bid) (db.buyers d) of
        None \<Rightarrow> (Inl (HTTPException 404 ''Buyer not found''), d)
      | Some db_buyer \<Rightarrow>
          if Buyer_sales d db_buyer \<noteq> [] \<or> Buyer_payments d db_buyer \<noteq> [] then
            (Inl (HTTPException 400 ''Cannot delete buyer with existing sales or payments''), d)
          else
            (Inr ''Buyer deleted successfully'',
             d\<lparr>db.buyers := delete_first (\<lambda>b. Buyer.id b = bid) (db.buyers d)\<rparr>))"

subsection \<open>The ledger\<close>

definition sale_txn :: "Sale \<Rightarrow> txn" where
  "sale_txn sale =
     \<lparr> txn.date = Sale.date sale,
       type = ''SALE'',
       description =
         ''Sale #'' @ show_nat (Sale.id sale) @ '' - '' @ PaymentType_value (Sale.payment_type sale),
       debit = Sale.total_amount sale,
       credit = 0 \<rparr>"

text \<open>
  A payment's method is a nullable column; an f-string prints a null as \<open>None\<close>.
\<close>

definition payment_txn :: "Payment \<Rightarrow> txn" where
  "payment_txn payment =
     \<lparr> txn.date = Payment.date payment,
       type = ''PAYMENT'',
       description =
         ''Payment - '' @ (case Payment.payment_method payment of None \<Rightarrow> ''None'' | Some m \<Rightarrow> m),
       debit = 0,
       credit = Payment.amount payment \<rparr>"

text \<open>The loop over the sorted transactions, carrying \<open>running_balance\<close>.\<close>

fun ledger_entries :: "real \<Rightarrow> txn list \<Rightarrow> LedgerEntry list" where
  "ledger_entries running_balance [] = []"
| "ledger_entries running_balance (t # ts) =
     (let running_balance' = running_balance + (txn.debit t - txn.credit t)
      in \<lparr> LedgerEntry.date = txn.date t,
           type = txn.type t,
           description = txn.description t,
           debit = txn.debit t,
           credit = txn.credit t,
           balance = running_balance' \<rparr> # ledger_entries running_balance' ts)"

text \<open>
  \<open>get_buyer_ledger\<close>. Both queries order by date and \<open>list.sort\<close> is stable, as
  \<open>sort_key\<close> is: transactions of one date keep the order sales-then-payments.
\<close>

definition get_buyer_ledger ::
  "db \<Rightarrow> nat \<Rightarrow> date option \<Rightarrow> date option \<Rightarrow> error + BuyerLedgerResponse" where
  "get_buyer_ledger d bid start_date end_date =
     (case find (\<lambda>b. Buyer.id b = bid) (db.buyers d) of
        None \<Rightarrow> Inl (HTTPException 404 ''Buyer not found'')
      | Some b \<Rightarrow>
          let sales = sort_key Sale.date
                (filter (\<lambda>s. Sale.buyer_id s = bid \<and> in_range start_date end_date (Sale.date s))
                   (db.sales d));
              payments = sort_key Payment.date
                (filter (\<lambda>p. Payment.buyer_id p = bid \<and> in_range start_date end_date (Payment.date p))
                   (db.payments d));
              transactions = sort_key txn.date (map sale_txn sales @ map payment_txn payments);
              entries = ledger_entries (Buyer.opening_balance b) transactions;
              total_sales = sum_list (map Sale.total_amount sales);
              total_payments = sum_list (map Payment.amount payments);
              closing_balance = Buyer.opening_balance b + total_sales - total_payments
          in Inr \<lparr> buyer = BuyerResponse_of d b,
                   entries = entries,
                   opening_balance = Buyer.opening_balance b,
                   closing_balance = closing_balance \<rparr>)"

section \<open>Purchases and the derived transport expense (routers/purchases.py)\<close>

text \<open>\<open>dict.get(key, default)\<close> on the dictionary of the fields an update sets.\<close>

definition dict_get :: "'a option \<Rightarrow> 'a \<Rightarrow> 'a" where
  "dict_get v dflt = (case v of None \<Rightarrow> dflt | Some x \<Rightarrow> x)"

text \<open>
  The description the handlers give a derived expense. The transport service is appended
  when it is truthy: neither null nor the empty string.
\<close>

definition transport_description :: "string \<Rightarrow> string option \<Rightarrow> string" where
  "transport_description seller service =
     ''Transport cost for purchase from '' @ seller @
     (case service of
        None \<Rightarrow> []
      | Some s \<Rightarrow> if s \<noteq> [] then '' ('' @ s @ '')'' else [])"

text \<open>
  The query that looks for a purchase's expense: same date, category Transport, and a
  description \<open>LIKE '%purchase from <seller_name>%'\<close>. A null description matches no
  pattern.
\<close>

definition linked_expense :: "Purchase \<Rightarrow> Expense \<Rightarrow> bool" where
  "linked_expense p e =
     (Expense.date e = Purchase.date p \<and>
      Expense.category e = TRANSPORT \<and>
      (case Expense.description e of
         None \<Rightarrow> False
       | Some s \<Rightarrow> like (''%purchase from '' @ Purchase.seller_name p @ ''%'') s))"

definition create_purchase :: "db \<Rightarrow> PurchaseCreate \<Rightarrow> (error + Purchase) \<times> db" where
  "create_purchase d purchase =
     (let total_cost =
            PurchaseCreate.quantity purchase * PurchaseCreate.price_per_unit purchase
            + PurchaseCreate.transport_cost purchase;
          db_purchase =
            \<lparr> Purchase.id = next_id (map Purchase.id (db.purchases d)),
              date = PurchaseCreate.date purchase,
              seller_name = PurchaseCreate.seller_name purchase,
              seller_phone = PurchaseCreate.seller_phone purchase,
              pickup_location = PurchaseCreate.pickup_location purchase,
              scrap_type = None,
              transport_service = PurchaseCreate.transport_service purchase,
              transport_cost = PurchaseCreate.transport_cost purchase,
              quantity = PurchaseCreate.quantity purchase,
              unit = Some (PurchaseCreate.unit purchase),
              price_per_unit = PurchaseCreate.price_per_unit purchase,
              total_purchase_cost = total_cost,
              notes = PurchaseCreate.notes purchase \<rparr>;
          d1 = d\<lparr>db.purchases := db.purchases d @ [db_purchase]\<rparr>
      in if PurchaseCreate.transport_cost purchase > 0 then
           let transport_expense =
                 \<lparr> Expense.id = next_id (map Expense.id (db.expenses d1)),
                   date = PurchaseCreate.date purchase,
                   category = TRANSPORT,
                   amount = PurchaseCreate.transport_cost purchase,
                   description =
                     Some (transport_description (PurchaseCreate.seller_name purchase)
                             (PurchaseCreate.transport_service purchase)) \<rparr>
           in (Inr db_purchase, d1\<lparr>db.expenses := db.expenses d1 @ [transport_expense]\<rparr>)
         else (Inr db_purchase, d1))"

text \<open>
  \<open>update_purchase\<close>. The purchase row is rewritten and committed first; the expense is
  then looked up with the purchase as it stands after the update.
\<close>

definition update_purchase :: "db \<Rightarrow> nat \<Rightarrow> PurchaseUpdate \<Rightarrow> (error + Purchase) \<times> db" where
  "update_purchase d purchase_id purchase_update =
     (case find (\<lambda>p. Purchase.id p = purchase_id) (db.purchases d) of
        None \<Rightarrow> (Inl (HTTPException 404 ''Purchase not found''), d)
      | Some db_purchase \<Rightarrow>
          let transport_cost_changed = (PurchaseUpdate.transport_cost purchase_update \<noteq> None);
              quantity =
                dict_get (PurchaseUpdate.quantity purchase_update) (Purchase.quantity db_purchase);
              price_per_unit =
                dict_get (PurchaseUpdate.price_per_unit purchase_update)
                  (Purchase.price_per_unit db_purchase);
              transport_cost =
                dict_get (PurchaseUpdate.transport_cost purchase_update)
                  (Purchase.transport_cost db_purchase);
              total =
                (if PurchaseUpdate.quantity purchase_update \<noteq> None
                    \<or> PurchaseUpdate.price_per_unit purchase_update \<noteq> None
                    \<or> PurchaseUpdate.transport_cost purchase_update \<noteq> None
                 then quantity * price_per_unit + transport_cost
                 else Purchase.total_purchase_cost db_purchase);
              db_purchase' =
                db_purchase
                  \<lparr> Purchase.date :=
                      dict_get (PurchaseUpdate.date purchase_update) (Purchase.date db_purchase),
                    Purchase.seller_name :=
                      dict_get (PurchaseUpdate.seller_name purchase_update)
                        (Purchase.seller_name db_purchase),
                    Purchase.seller_phone :=
                      dict_get (PurchaseUpdate.seller_phone purchase_update)
                        (Purchase.seller_phone db_purchase),
                    Purchase.pickup_location :=
                      dict_get (PurchaseUpdate.pickup_location purchase_update)
                        (Purchase.pickup_location db_purchase),
                    Purchase.transport_service :=
                      dict_get (PurchaseUpdate.transport_service purchase_update)
                        (Purchase.transport_service db_purchase),
                    Purchase.transport_cost := transport_cost,
                    Purchase.quantity := quantity,
                    Purchase.unit :=
                      dict_get (PurchaseUpdate.unit purchase_update) (Purchase.unit db_purchase),
                    Purchase.price_per_unit := price_per_unit,
                    Purchase.total_purchase_cost := total,
                    Purchase.notes :=
                      dict_get (PurchaseUpdate.notes purchase_update) (Purchase.notes db_purchase) \<rparr>;
              d1 = d\<lparr>db.purchases :=
                      update_first (\<lambda>p. Purchase.id p = purchase_id) (\<lambda>p. db_purchase')
                        (db.purchases d)\<rparr>;
              new_description =
                transport_description (Purchase.seller_name db_purchase')
                  (Purchase.transport_service db_purchase')
          in if transport_cost_changed then
               (case find (linked_expense db_purchase') (db.expenses d1) of
                  Some existing_expense \<Rightarrow>
                    if transport_cost > 0 then
                      (Inr db_purchase',
                       d1\<lparr>db.expenses :=
                            update_first (linked_expense db_purchase')
                              (\<lambda>e. e\<lparr>Expense.amount := transport_cost,
                                      Expense.description := Some new_description\<rparr>)
                              (db.expenses d1)\<rparr>)
                    else
                      (Inr db_purchase',
                       d1\<lparr>db.expenses :=
                            delete_first (linked_expense db_purchase') (db.expenses d1)\<rparr>)
                | None \<Rightarrow>
                    if transport_cost > 0 then
                      let transport_expense =
                            \<lparr> Expense.id = next_id (map Expense.id (db.expenses d1)),
                              date = Purchase.date db_purchase',
                              category = TRANSPORT,
                              amount = transport_cost,
                              description = Some new_description \<rparr>
                      in (Inr db_purchase',
                          d1\<lparr>db.expenses := db.expenses d1 @ [transport_expense]\<rparr>)
                    else (Inr db_purchase', d1))
             else (Inr db_purchase', d1))"

section \<open>Sales (routers/sales.py)\<close>

text \<open>
  Whether the engine enforces the declared foreign keys is a property of the engine, which
  is configured outside the handlers; it is the parameter \<open>enforce_fk\<close>. Where it does, a
  row that refers to a missing buyer or product type makes the flush or the commit raise,
  and nothing of the request is stored.
\<close>

definition buyer_exists :: "db \<Rightarrow> nat \<Rightarrow> bool" where
  "buyer_exists d bid = (find (\<lambda>b. Buyer.id b = bid) (db.buyers d) \<noteq> None)"

definition product_type_exists :: "db \<Rightarrow> nat \<Rightarrow> bool" where
  "product_type_exists d pid = (find (\<lambda>t. ProductType.id t = pid) (db.product_types d) \<noteq> None)"

text \<open>The loop that adds one \<open>SaleItem\<close> row per item of the request.\<close>

fun add_sale_items :: "nat \<Rightarrow> SaleItemCreate list \<Rightarrow> SaleItem list \<Rightarrow> SaleItem list" where
  "add_sale_items sid [] table = table"
| "add_sale_items sid (item # items) table =
     add_sale_items sid items
       (table @
        [\<lparr> SaleItem.id = next_id (map SaleItem.id table),
           sale_id = sid,
           product_type_id = SaleItemCreate.product_type_id item,
           quantity = SaleItemCreate.quantity item,
           unit = Some (SaleItemCreate.unit item),
           price_per_unit = SaleItemCreate.price_per_unit item,
           total_price = SaleItemCreate.quantity item * SaleItemCreate.price_per_unit item \<rparr>])"

definition create_sale :: "bool \<Rightarrow> db \<Rightarrow> SaleCreate \<Rightarrow> (error + Sale) \<times> db" where
  "create_sale enforce_fk d sale =
     (let total_amount =
            fold (\<lambda>item acc. acc + SaleItemCreate.quantity item * SaleItemCreate.price_per_unit item)
              (SaleCreate.sale_items sale) 0;
          db_sale =
            \<lparr> Sale.id = next_id (map Sale.id (db.sales d)),
              date = SaleCreate.date sale,
              buyer_id = SaleCreate.buyer_id sale,
              payment_type = SaleCreate.payment_type sale,
              payment_received_now = SaleCreate.payment_received_now sale,
              total_amount = total_amount,
              notes = SaleCreate.notes sale \<rparr>
      in if enforce_fk \<and>
            (\<not> buyer_exists d (SaleCreate.buyer_id sale) \<or>
             \<not> list_all (\<lambda>item. product_type_exists d (SaleItemCreate.product_type_id item))
                  (SaleCreate.sale_items sale))
         then (Inl IntegrityError, d)
         else
           let d1 = d\<lparr>db.sales := db.sales d @ [db_sale]\<rparr>;
               d2 = d1\<lparr>db.sale_items :=
                         add_sale_items (Sale.id db_sale) (SaleCreate.sale_items sale)
                           (db.sale_items d1)\<rparr>
           in if SaleCreate.payment_received_now sale > 0 then
                let payment =
                      \<lparr> Payment.id = next_id (map Payment.id (db.payments d2)),
                        date = SaleCreate.date sale,
                        buyer_id = SaleCreate.buyer_id sale,
                        amount = SaleCreate.payment_received_now sale,
                        payment_method = Some ''Cash'',
                        notes = Some (''Payment for Sale #'' @ show_nat (Sale.id db_sale)) \<rparr>
                in (Inr db_sale, d2\<lparr>db.payments := db.payments d2 @ [payment]\<rparr>)
              else (Inr db_sale, d2))"

definition update_sale :: "bool \<Rightarrow> db \<Rightarrow> nat \<Rightarrow> SaleUpdate \<Rightarrow> (error + Sale) \<times> db" where
  "update_sale enforce_fk d sid sale_update =
     (case find (\<lambda>s. Sale.id s = sid) (db.sales d) of
        None \<Rightarrow> (Inl (HTTPException 404 ''Sale not found''), d)
      | Some db_sale \<Rightarrow>
          let db_sale' =
                db_sale
                  \<lparr> Sale.date := dict_get (SaleUpdate.date sale_update) (Sale.date db_sale),
                    Sale.buyer_id :=
                      dict_get (SaleUpdate.buyer_id sale_update) (Sale.buyer_id db_sale),
                    Sale.payment_type :=
                      dict_get (SaleUpdate.payment_type sale_update) (Sale.payment_type db_sale),
                    Sale.payment_received_now :=
                      dict_get (SaleUpdate.payment_received_now sale_update)
                        (Sale.payment_received_now db_sale),
                    Sale.notes := dict_get (SaleUpdate.notes sale_update) (Sale.notes db_sale) \<rparr>
          in if enforce_fk \<and> \<not> buyer_exists d (Sale.buyer_id db_sale') then
               (Inl IntegrityError, d)
             else
               (Inr db_sale',
                d\<lparr>db.sales :=
                     update_first (\<lambda>s. Sale.id s = sid) (\<lambda>s. db_sale') (db.sales d)\<rparr>))"

section \<open>Analytics (routers/analytics.py)\<close>

text \<open>
  The current date is the handlers' only input from the clock; it is the parameter
  \<open>today\<close>. \<open>func.sum(...).scalar() or 0\<close> is the sum of the selected rows, 0 when there are
  none.
\<close>

definition get_dashboard_summary :: "db \<Rightarrow> date \<Rightarrow> DashboardSummary" where
  "get_dashboard_summary d today =
     (let today_purchases =
            sum_list (map Purchase.total_purchase_cost
              (filter (\<lambda>p. Purchase.date p = today) (db.purchases d)));
          today_sales =
            sum_list (map Sale.total_amount (filter (\<lambda>s. Sale.date s = today) (db.sales d)));
          today_expenses =
            sum_list (map Expense.amount (filter (\<lambda>e. Expense.date e = today) (db.expenses d)));
          total_purchases = sum_list (map Purchase.total_purchase_cost (db.purchases d));
          total_sales = sum_list (map Sale.total_amount (db.sales d));
          total_expenses = sum_list (map Expense.amount (db.expenses d));
          total_profit = total_sales - total_purchases - total_expenses;
          total_receivable =
            fold (\<lambda>buyer acc.
                    let total_sales_buyer = sum_list (map Sale.total_amount (Buyer_sales d buyer));
                        total_payments_buyer =
                          sum_list (map Payment.amount (Buyer_payments d buyer))
                    in acc + (Buyer.opening_balance buyer + total_sales_buyer - total_payments_buyer))
              (db.buyers d) 0
      in \<lparr> today_purchases = today_purchases,
           today_sales = today_sales,
           today_expenses = today_expenses,
           total_purchases = total_purchases,
           total_sales = total_sales,
           total_expenses = total_expenses,
           total_profit = total_profit,
           total_receivable = total_receivable \<rparr>)"

subsection \<open>Monthly statistics\<close>

text \<open>
  The loop that collects \<open>(curr.year, curr.month)\<close> and steps \<open>curr\<close> (here \<open>cur\<close>) one month
  back. It is the first day of a month, so \<open>replace(month=...)\<close> always succeeds, and
  \<open>replace(year=curr.year - 1, ...)\<close> raises once the year would fall below 1.
\<close>

fun month_list_loop :: "nat \<Rightarrow> date \<Rightarrow> (nat \<times> nat) list \<Rightarrow> error + (nat \<times> nat) list" where
  "month_list_loop 0 cur month_list = Inr month_list"
| "month_list_loop (Suc n) cur month_list =
     (if date_month cur = 1 then
        (if date_year cur - 1 < 1 then Inl ValueError
         else month_list_loop n (date_year cur - 1, 12, date_day cur)
                (month_list @ [(date_year cur, date_month cur)]))
      else month_list_loop n (date_year cur, date_month cur - 1, date_day cur)
             (month_list @ [(date_year cur, date_month cur)]))"

text \<open>
  A grouped query: the rows from \<open>start_date\<close> on, grouped by the year and month of their
  date, each group with the sum of its amounts. The engine returns the groups in an order
  of its own; here it is the order in which the groups first occur.
\<close>

definition monthly_totals :: "(date \<times> real) list \<Rightarrow> date \<Rightarrow> (nat \<times> nat \<times> real) list" where
  "monthly_totals rows start_date =
     (let selected = filter (\<lambda>r. start_date \<le> fst r) rows
      in map (\<lambda>g. (fst g, snd g,
                    sum_list (map snd
                      (filter (\<lambda>r. date_year (fst r) = fst g \<and> date_month (fst r) = snd g) selected))))
           (remdups (map (\<lambda>r. (date_year (fst r), date_month (fst r))) selected)))"

text \<open>The format \<open>02d\<close>: zeros on the left up to width 2.\<close>

definition zero_pad2 :: "string \<Rightarrow> string" where
  "zero_pad2 s = replicate (2 - length s) CHR ''0'' @ s"

definition month_key :: "nat \<Rightarrow> nat \<Rightarrow> string" where
  "month_key y m = show_nat y @ ''-'' @ zero_pad2 (show_nat m)"

text \<open>A dictionary comprehension: a later pair with the same key replaces an earlier one.\<close>

definition dict_of :: "('k \<times> 'v) list \<Rightarrow> ('k \<rightharpoonup> 'v)" where
  "dict_of kvs = fold (\<lambda>kv m. m(fst kv \<mapsto> snd kv)) kvs Map.empty"

definition totals_dict :: "(nat \<times> nat \<times> real) list \<Rightarrow> (string \<rightharpoonup> real)" where
  "totals_dict results =
     dict_of (map (\<lambda>r. (month_key (fst r) (fst (snd r)), snd (snd r))) results)"

text \<open>\<open>strftime("%b %Y")\<close> in the C locale: the month's three-letter name and the year in decimal.\<close>

definition month_abbr :: "nat \<Rightarrow> string" where
  "month_abbr m =
     [''Jan'', ''Feb'', ''Mar'', ''Apr'', ''May'', ''Jun'',
      ''Jul'', ''Aug'', ''Sep'', ''Oct'', ''Nov'', ''Dec''] ! (m - 1)"

definition strftime_b_Y :: "date \<Rightarrow> string" where
  "strftime_b_Y d = month_abbr (date_month d) @ '' '' @ show_nat (date_year d)"

definition get_monthly_stats :: "db \<Rightarrow> date \<Rightarrow> int \<Rightarrow> error + MonthlyStats list" where
  "get_monthly_stats d today months =
     (if months < 1 \<or> 24 < months then Inl RequestValidationError
      else
        case month_list_loop (nat months) (date_year today, date_month today, 1) [] of
          Inl e \<Rightarrow> Inl e
        | Inr collected \<Rightarrow>
            (case rev collected of
               [] \<Rightarrow> Inl IndexError
             | oldest # later \<Rightarrow>
                 let month_list = oldest # later;
                     start_date = (fst oldest, snd oldest, 1);
                     purchase_dict =
                       totals_dict
                         (monthly_totals
                            (map (\<lambda>p. (Purchase.date p, Purchase.total_purchase_cost p))
                               (db.purchases d))
                            start_date);
                     sales_dict =
                       totals_dict
                         (monthly_totals
                            (map (\<lambda>s. (Sale.date s, Sale.total_amount s)) (db.sales d))
                            start_date);
                     expense_dict =
                       totals_dict
                         (monthly_totals
                            (map (\<lambda>e. (Expense.date e, Expense.amount e)) (db.expenses d))
                            start_date)
                 in Inr (map (\<lambda>ym.
                               let month_key = month_key (fst ym) (snd ym);
                                   month_date = (fst ym, snd ym, 1);
                                   purchases = dict_get (purchase_dict month_key) 0;
                                   sales = dict_get (sales_dict month_key) 0;
                                   expenses = dict_get (expense_dict month_key) 0;
                                   profit = sales - purchases - expenses
                               in \<lparr> month = strftime_b_Y month_date,
                                    purchases = purchases,
                                    sales = sales,
                                    expenses = expenses,
                                    profit = profit \<rparr>)
                          month_list)))"

subsection \<open>Top buyers\<close>

text \<open>
  \<open>list.sort(key=..., reverse=True)\<close> keeps rows of equal key in their original order; it
  is the stable sort by the negated key.
\<close>

definition get_top_buyers :: "db \<Rightarrow> int \<Rightarrow> error + TopBuyerStats list" where
  "get_top_buyers d limit =
     (if limit < 1 \<or> 50 < limit then Inl RequestValidationError
      else
        let buyer_stats =
              concat (map (\<lambda>buyer.
                let total_sales = sum_list (map Sale.total_amount (Buyer_sales d buyer));
                    total_payments = sum_list (map Payment.amount (Buyer_payments d buyer));
                    outstanding = Buyer.opening_balance buyer + total_sales - total_payments
                in if outstanding > 0 then
                     [\<lparr> buyer_name = Buyer.name buyer, outstanding_amount = outstanding \<rparr>]
                   else [])
                (db.buyers d))
        in Inr (take (nat limit) (sort_key (\<lambda>x. - outstanding_amount x) buyer_stats)))"

section \<open>Example data\<close>

text \<open>
  A small database for evaluating the handlers: Asha opened with 100, bought for 50 on
  10 January 2024 and for 30 on 5 February, and paid 20 on 20 January; Bina opened with
  100 and has no transactions.
\<close>

definition asha :: Buyer where
  "asha = \<lparr> Buyer.id = 1, name = ''Asha'', phone = None, address = None, notes = None,
            opening_balance = 100 \<rparr>"

definition bina :: Buyer where
  "bina = \<lparr> Buyer.id = 2, name = ''Bina'', phone = None, address = None, notes = None,
            opening_balance = 100 \<rparr>"

definition sale_jan :: Sale where
  "sale_jan = \<lparr> Sale.id = 1, date = (2024, 1, 10), buyer_id = 1, payment_type = CREDIT,
                payment_received_now = 0, total_amount = 50, notes = None \<rparr>"

definition sale_feb :: Sale where
  "sale_feb = \<lparr> Sale.id = 2, date = (2024, 2, 5), buyer_id = 1, payment_type = CREDIT,
                payment_received_now = 0, total_amount = 30, notes = None \<rparr>"

definition payment_jan :: Payment where
  "payment_jan = \<lparr> Payment.id = 1, date = (2024, 1, 20), buyer_id = 1, amount = 20,
                   payment_method = Some ''Cash'', notes = None \<rparr>"

definition example_db :: db where
  "example_db =
     \<lparr> product_types = [], buyers = [asha, bina], purchases = [],
       sales = [sale_jan, sale_feb], sale_items = [], payments = [payment_jan],
       expenses = [] \<rparr>"

text \<open>Two buyers who owe the same amount.\<close>

definition tie_db :: db where
  "tie_db =
     \<lparr> product_types = [], buyers = [asha, bina], purchases = [], sales = [],
       sale_items = [], payments = [], expenses = [] \<rparr>"

text \<open>
  Two purchase requests: 10 kg at 5 from Acme on 1 March 2024 with a transport cost of 50,
  and the same without transport.
\<close>

definition acme_purchase :: PurchaseCreate where
  "acme_purchase =
     \<lparr> PurchaseCreate.date = (2024, 3, 1), seller_name = ''Acme'', seller_phone = None,
       pickup_location = None, transport_service = None, transport_cost = 50,
       quantity = 10, unit = ''kg'', price_per_unit = 5, notes = None \<rparr>"

definition acme_purchase_free :: PurchaseCreate where
  "acme_purchase_free = acme_purchase\<lparr>PurchaseCreate.transport_cost := 0\<rparr>"

text \<open>
  The example database with one product type, and a sale to Asha of 10 kg at 5 and 2 kg at
  3 of it, with 20 received at once.
\<close>

definition shop_db :: db where
  "shop_db =
     example_db\<lparr>db.product_types := [\<lparr> ProductType.id = 1, name = ''Ply'',
                                          description = Some ''Plywood sheets'' \<rparr>]\<rparr>"

definition two_item_sale :: SaleCreate where
  "two_item_sale =
     \<lparr> SaleCreate.date = (2024, 3, 1), buyer_id = 1, payment_type = PARTIAL,
       payment_received_now = 20, notes = None,
       sale_items =
         [\<lparr> SaleItemCreate.product_type_id = 1, quantity = 10, unit = ''kg'',
             price_per_unit = 5 \<rparr>,
          \<lparr> SaleItemCreate.product_type_id = 1, quantity = 2, unit = ''kg'',
             price_per_unit = 3 \<rparr>] \<rparr>"

text \<open>An update that sets only \<open>payment_received_now\<close>, to 30.\<close>

definition received_30 :: SaleUpdate where
  "received_30 =
     \<lparr> SaleUpdate.date = None, buyer_id = None, payment_type = None,
       payment_received_now = Some 30, notes = None \<rparr>"

text \<open>
  The purchase as \<open>update_purchase\<close> leaves it: every field the request sets takes the
  request's value, and the total is derived again when the request sets the quantity, the
  unit price or the transport cost.
\<close>

definition updated_purchase :: "Purchase \<Rightarrow> PurchaseUpdate \<Rightarrow> Purchase" where
  "updated_purchase p u =
     p\<lparr> Purchase.date := dict_get (PurchaseUpdate.date u) (Purchase.date p),
        Purchase.seller_name := dict_get (PurchaseUpdate.seller_name u) (Purchase.seller_name p),
        Purchase.seller_phone := dict_get (PurchaseUpdate.seller_phone u) (Purchase.seller_phone p),
        Purchase.pickup_location :=
          dict_get (PurchaseUpdate.pickup_location u) (Purchase.pickup_location p),
        Purchase.transport_service :=
          dict_get (PurchaseUpdate.transport_service u) (Purchase.transport_service p),
        Purchase.transport_cost :=
          dict_get (PurchaseUpdate.transport_cost u) (Purchase.transport_cost p),
        Purchase.quantity := dict_get (PurchaseUpdate.quantity u) (Purchase.quantity p),
        Purchase.unit := dict_get (PurchaseUpdate.unit u) (Purchase.unit p),
        Purchase.price_per_unit :=
          dict_get (PurchaseUpdate.price_per_unit u) (Purchase.price_per_unit p),
        Purchase.total_purchase_cost :=
          (if PurchaseUpdate.quantity u \<noteq> None \<or> PurchaseUpdate.price_per_unit u \<noteq> None
              \<or> PurchaseUpdate.transport_cost u \<noteq> None
           then dict_get (PurchaseUpdate.quantity u) (Purchase.quantity p)
                * dict_get (PurchaseUpdate.price_per_unit u) (Purchase.price_per_unit p)
                + dict_get (PurchaseUpdate.transport_cost u) (Purchase.transport_cost p)
           else Purchase.total_purchase_cost p),
        Purchase.notes := dict_get (PurchaseUpdate.notes u) (Purchase.notes p) \<rparr>"

text \<open>
  The state two requests leave on an empty database: a purchase from the seller \<open>AB\<close>
  with a transport cost of 40, then a purchase from the seller \<open>A_\<close> on the same day
  without transport. And an update that sets only the transport cost, to 75.
\<close>

definition empty_db :: db where
  "empty_db =
     \<lparr> product_types = [], buyers = [], purchases = [], sales = [], sale_items = [],
       payments = [], expenses = [] \<rparr>"

definition request_AB :: PurchaseCreate where
  "request_AB =
     \<lparr> PurchaseCreate.date = (2024, 3, 1), seller_name = ''AB'', seller_phone = None,
       pickup_location = None, transport_service = None, transport_cost = 40,
       quantity = 10, unit = ''kg'', price_per_unit = 5, notes = None \<rparr>"

definition request_A_underscore :: PurchaseCreate where
  "request_A_underscore =
     \<lparr> PurchaseCreate.date = (2024, 3, 1), seller_name = ''A_'', seller_phone = None,
       pickup_location = None, transport_service = None, transport_cost = 0,
       quantity = 10, unit = ''kg'', price_per_unit = 5, notes = None \<rparr>"

definition wildcard_db :: db where
  "wildcard_db =
     snd (create_purchase (snd (create_purchase empty_db request_AB)) request_A_underscore)"

definition cost_75 :: PurchaseUpdate where
  "cost_75 =
     \<lparr> PurchaseUpdate.date = None, seller_name = None, seller_phone = None,
       pickup_location = None, transport_service = None, transport_cost = Some 75,
       quantity = None, unit = None, price_per_unit = None, notes = None \<rparr>"

section \<open>Properties\<close>

subsection \<open>Auxiliary facts about lists and the session's primitives\<close>

lemma find_None_iff_no_row: "(find P xs = None) = (\<not> (\<exists>x\<in>set xs. P x))"
  by (induction xs) auto

lemma find_Some_row: "find P xs = Some x \<Longrightarrow> P x \<and> x \<in> set xs"
  by (induction xs) (auto split: if_splits)

lemma sum_list_sort_key:
  fixes f :: "'a \<Rightarrow> real"
  shows "sum_list (map f (sort_key k xs)) = sum_list (map f xs)"
proof -
  have "mset (map f (sort_key k xs)) = mset (map f xs)"
    by simp
  then show ?thesis
    by (metis sum_mset_sum_list)
qed

subsection \<open>Outstanding balances\<close>

text \<open>The rows \<open>get_top_buyers\<close> ranks: one per buyer who owes a positive amount.\<close>

lemma top_buyers_stats:
  "concat (map (\<lambda>buyer.
             if 0 < Buyer.opening_balance buyer
                    + sum_list (map Sale.total_amount (Buyer_sales d buyer))
                    - sum_list (map Payment.amount (Buyer_payments d buyer))
             then [\<lparr> buyer_name = Buyer.name buyer,
                     outstanding_amount =
                       Buyer.opening_balance buyer
                       + sum_list (map Sale.total_amount (Buyer_sales d buyer))
                       - sum_list (map Payment.amount (Buyer_payments d buyer)) \<rparr>]
             else [])
           bs)
   = map (\<lambda>b. \<lparr> buyer_name = Buyer.name b, outstanding_amount = Buyer_outstanding_balance d b \<rparr>)
       (filter (\<lambda>b. 0 < Buyer_outstanding_balance d b) bs)"
  by (induction bs)
     (simp_all add: Buyer_outstanding_balance_def Buyer_total_sales_def Buyer_total_payments_def)

lemma get_top_buyers_eq:
  "get_top_buyers d limit =
     (if limit < 1 \<or> 50 < limit then Inl RequestValidationError
      else Inr (take (nat limit)
             (sort_key (\<lambda>x. - outstanding_amount x)
                (map (\<lambda>b. \<lparr> buyer_name = Buyer.name b,
                             outstanding_amount = Buyer_outstanding_balance d b \<rparr>)
                   (filter (\<lambda>b. 0 < Buyer_outstanding_balance d b) (db.buyers d))))))"
  unfolding get_top_buyers_def Let_def top_buyers_stats ..

lemma receivable_fold:
  "fold (\<lambda>buyer acc.
           acc + (Buyer.opening_balance buyer
                  + sum_list (map Sale.total_amount (Buyer_sales d buyer))
                  - sum_list (map Payment.amount (Buyer_payments d buyer))))
     bs a = a + sum_list (map (Buyer_outstanding_balance d) bs)"
  by (induction bs arbitrary: a)
     (simp_all add: Buyer_outstanding_balance_def Buyer_total_sales_def Buyer_total_payments_def)


subsection \<open>Deleting a buyer\<close>

text \<open>
  Claim C9. Deleting a buyer who has at least one sale or at least one payment is refused
  (the handler raises its conflict error, status 400 with the detail below) and the
  database is left exactly as it was, so the buyer, the sales and the payments are
  unchanged; deleting a buyer that does not exist is refused with the not-found error
  (status 404) and the database is left as it was.
\<close>

theorem delete_buyer_rejected:
  "(\<not> (\<exists>b\<in>set (db.buyers d). Buyer.id b = bid) \<longrightarrow>
      delete_buyer d bid = (Inl (HTTPException 404 ''Buyer not found''), d)) \<and>
   ((\<exists>b\<in>set (db.buyers d). Buyer.id b = bid) \<and>
    ((\<exists>s\<in>set (db.sales d). Sale.buyer_id s = bid) \<or>
     (\<exists>p\<in>set (db.payments d). Payment.buyer_id p = bid)) \<longrightarrow>
      delete_buyer d bid =
        (Inl (HTTPException 400 ''Cannot delete buyer with existing sales or payments''), d))"
proof (intro conjI impI)
  assume "\<not> (\<exists>b\<in>set (db.buyers d). Buyer.id b = bid)"
  then have "find (\<lambda>b. Buyer.id b = bid) (db.buyers d) = None"
    by (simp add: find_None_iff_no_row)
  then show "delete_buyer d bid = (Inl (HTTPException 404 ''Buyer not found''), d)"
    by (simp add: delete_buyer_def)
next
  assume a: "(\<exists>b\<in>set (db.buyers d). Buyer.id b = bid) \<and>
    ((\<exists>s\<in>set (db.sales d). Sale.buyer_id s = bid) \<or>
     (\<exists>p\<in>set (db.payments d). Payment.buyer_id p = bid))"
  then obtain b where fb: "find (\<lambda>b. Buyer.id b = bid) (db.buyers d) = Some b"
    using find_None_iff_no_row [of "\<lambda>b. Buyer.id b = bid" "db.buyers d"] by fastforce
  then have idb: "Buyer.id b = bid"
    by (auto dest: find_Some_row)
  from a have "Buyer_sales d b \<noteq> [] \<or> Buyer_payments d b \<noteq> []"
    by (auto simp: Buyer_sales_def Buyer_payments_def idb filter_empty_conv)
  with fb show "delete_buyer d bid =
        (Inl (HTTPException 400 ''Cannot delete buyer with existing sales or payments''), d)"
    by (simp add: delete_buyer_def)
qed

text \<open>
  In the example database buyer 1 has two sales and a payment, and no buyer has id 3.
\<close>

theorem delete_buyer_rejected_witness:
  "(\<exists>b\<in>set (db.buyers example_db). Buyer.id b = 1) \<and>
   (\<exists>s\<in>set (db.sales example_db). Sale.buyer_id s = 1) \<and>
   delete_buyer example_db 1 =
     (Inl (HTTPException 400 ''Cannot delete buyer with existing sales or payments''), example_db) \<and>
   \<not> (\<exists>b\<in>set (db.buyers example_db). Buyer.id b = 3) \<and>
   delete_buyer example_db 3 = (Inl (HTTPException 404 ''Buyer not found''), example_db)"
proof -
  have h1: "\<exists>b\<in>set (db.buyers example_db). Buyer.id b = 1"
    by (simp add: example_db_def asha_def)
  have h2: "\<exists>s\<in>set (db.sales example_db). Sale.buyer_id s = 1"
    by (simp add: example_db_def sale_jan_def)
  have h3: "\<not> (\<exists>b\<in>set (db.buyers example_db). Buyer.id b = 3)"
    by (simp add: example_db_def asha_def bina_def)
  from h1 h2 h3 delete_buyer_rejected [of example_db 1] delete_buyer_rejected [of example_db 3]
  show ?thesis
    by blast
qed

subsection \<open>The ledger\<close>

lemma ledger_entries_eq_Nil: "(ledger_entries b ts = []) = (ts = [])"
  by (cases ts) (simp_all add: Let_def)

lemma length_ledger_entries: "length (ledger_entries b ts) = length ts"
  by (induction ts arbitrary: b) (simp_all add: Let_def)

text \<open>The last running balance is the seed plus every debit minus every credit.\<close>

lemma ledger_entries_last:
  "ts \<noteq> [] \<Longrightarrow>
   LedgerEntry.balance (last (ledger_entries b ts)) =
     b + sum_list (map (\<lambda>t. txn.debit t - txn.credit t) ts)"
proof (induction ts arbitrary: b)
  case Nil
  then show ?case by simp
next
  case (Cons t ts)
  show ?case
  proof (cases "ts = []")
    case True
    then show ?thesis by (simp add: Let_def)
  next
    case False
    from Cons.IH [OF False, of "b + (txn.debit t - txn.credit t)"] False
    show ?thesis by (simp add: Let_def ledger_entries_eq_Nil)
  qed
qed

lemma txn_sum_sales:
  "sum_list (map ((\<lambda>t. txn.debit t - txn.credit t) \<circ> sale_txn) ss) =
     sum_list (map Sale.total_amount ss)"
  by (induction ss) (simp_all add: sale_txn_def)

lemma txn_sum_payments:
  "sum_list (map ((\<lambda>t. txn.debit t - txn.credit t) \<circ> payment_txn) ps) =
     - sum_list (map Payment.amount ps)"
  by (induction ps) (simp_all add: payment_txn_def)

text \<open>What the handler returns for a buyer it finds, with the two queries named.\<close>

lemma get_buyer_ledger_found:
  assumes "find (\<lambda>b. Buyer.id b = bid) (db.buyers d) = Some b"
    and "ss = sort_key Sale.date
           (filter (\<lambda>s. Sale.buyer_id s = bid \<and> in_range start_date end_date (Sale.date s))
              (db.sales d))"
    and "ps = sort_key Payment.date
           (filter (\<lambda>p. Payment.buyer_id p = bid \<and> in_range start_date end_date (Payment.date p))
              (db.payments d))"
  shows "get_buyer_ledger d bid start_date end_date =
     Inr \<lparr> buyer = BuyerResponse_of d b,
           entries = ledger_entries (Buyer.opening_balance b)
                       (sort_key txn.date (map sale_txn ss @ map payment_txn ps)),
           opening_balance = Buyer.opening_balance b,
           closing_balance =
             Buyer.opening_balance b + sum_list (map Sale.total_amount ss)
             - sum_list (map Payment.amount ps) \<rparr>"
  using assms by (simp add: get_buyer_ledger_def Let_def)

lemma ledger_last_balance:
  assumes "get_buyer_ledger d bid start_date end_date = Inr r"
    and "BuyerLedgerResponse.entries r \<noteq> []"
  shows "LedgerEntry.balance (last (BuyerLedgerResponse.entries r)) =
           BuyerLedgerResponse.closing_balance r"
proof -
  from assms(1) obtain b where fb: "find (\<lambda>b. Buyer.id b = bid) (db.buyers d) = Some b"
    by (auto simp: get_buyer_ledger_def split: option.splits)
  define ss where "ss = sort_key Sale.date
     (filter (\<lambda>s. Sale.buyer_id s = bid \<and> in_range start_date end_date (Sale.date s))
        (db.sales d))"
  define ps where "ps = sort_key Payment.date
     (filter (\<lambda>p. Payment.buyer_id p = bid \<and> in_range start_date end_date (Payment.date p))
        (db.payments d))"
  define ts where "ts = sort_key txn.date (map sale_txn ss @ map payment_txn ps)"
  have r: "r = \<lparr> buyer = BuyerResponse_of d b,
                 entries = ledger_entries (Buyer.opening_balance b) ts,
                 opening_balance = Buyer.opening_balance b,
                 closing_balance =
                   Buyer.opening_balance b + sum_list (map Sale.total_amount ss)
                   - sum_list (map Payment.amount ps) \<rparr>"
    using assms(1) get_buyer_ledger_found [OF fb ss_def ps_def] by (simp add: ts_def)
  have ne: "ts \<noteq> []"
    using assms(2) r by (simp add: ledger_entries_eq_Nil)
  have "sum_list (map (\<lambda>t. txn.debit t - txn.credit t) ts) =
          sum_list (map Sale.total_amount ss) - sum_list (map Payment.amount ps)"
    by (simp add: ts_def sum_list_sort_key txn_sum_sales txn_sum_payments)
  with ledger_entries_last [OF ne, of "Buyer.opening_balance b"] show ?thesis
    by (simp add: r)
qed






subsection \<open>Top buyers\<close>

lemma sorted_desc_sort_key:
  "sorted_wrt (\<lambda>a b. outstanding_amount b \<le> outstanding_amount a)
     (sort_key (\<lambda>x. - outstanding_amount x) xs)"
proof -
  have "sorted (map (\<lambda>x. - outstanding_amount x) (sort_key (\<lambda>x. - outstanding_amount x) xs))"
    by (rule sorted_sort_key)
  then show ?thesis
    by (simp add: sorted_wrt_map)
qed

text \<open>In a list sorted downwards, what a cut leaves out is no larger than what it keeps.\<close>

lemma take_dominates_rest:
  assumes "sorted_wrt (\<lambda>a b. f b \<le> f a) ys" and "y \<in> set ys"
  shows "y \<in> set (take k ys) \<or> (\<forall>r\<in>set (take k ys). f y \<le> f r)"
proof -
  have "sorted_wrt (\<lambda>a b. f b \<le> f a) (take k ys @ drop k ys)"
    using assms(1) by simp
  then have "\<forall>r\<in>set (take k ys). \<forall>z\<in>set (drop k ys). f z \<le> f r"
    by (simp only: sorted_wrt_append) blast
  moreover have "y \<in> set (take k ys) \<or> y \<in> set (drop k ys)"
    using assms(2) by (metis Un_iff append_take_drop_id set_append)
  ultimately show ?thesis
    by blast
qed




subsection \<open>Primary keys\<close>

lemma fold_max_ge_init: "(a::nat) \<le> fold max ids a"
proof (induction ids arbitrary: a)
  case Nil
  then show ?case by simp
next
  case (Cons i ids)
  have "a \<le> max i a" by simp
  also have "\<dots> \<le> fold max ids (max i a)" by (rule Cons.IH)
  finally show ?case by simp
qed

lemma fold_max_ge_member: "(x::nat) \<in> set ids \<Longrightarrow> x \<le> fold max ids a"
proof (induction ids arbitrary: a)
  case Nil
  then show ?case by simp
next
  case (Cons i ids)
  show ?case
  proof (cases "x = i")
    case True
    have "x \<le> max i a" using True by simp
    also have "\<dots> \<le> fold max ids (max i a)" by (rule fold_max_ge_init)
    finally show ?thesis by simp
  next
    case False
    with Cons.prems have "x \<in> set ids" by simp
    then show ?thesis using Cons.IH by simp
  qed
qed

text \<open>The key a new row gets is not the key of any row of the table.\<close>

lemma next_id_fresh: "next_id ids \<notin> set ids"
proof
  assume "next_id ids \<in> set ids"
  then have "next_id ids \<le> fold max ids 0" by (rule fold_max_ge_member)
  then show False by (simp add: next_id_def)
qed

subsection \<open>\<open>LIKE\<close> and containment\<close>

lemma like_percent_all: "like ''%'' s"
  by (induction s) simp_all

lemma like_percent_skip: "like (CHR ''%'' # ps) t \<Longrightarrow> like (CHR ''%'' # ps) (pre @ t)"
  by (induction pre) simp_all

text \<open>A pattern matches itself, wildcards included.\<close>

lemma like_self: "like rest s \<Longrightarrow> like (pat @ rest) (pat @ s)"
  by (induction pat) simp_all

text \<open>Containment implies the \<open>LIKE\<close> match the handlers use.\<close>

lemma sublist_imp_like:
  assumes "sublist pat s"
  shows "like (''%'' @ pat @ ''%'') s"
proof -
  from assms obtain pre post where s: "s = pre @ pat @ post"
    by (auto simp: sublist_def)
  have "like (pat @ ''%'') (pat @ post)"
    by (rule like_self) (rule like_percent_all)
  then have "like (CHR ''%'' # pat @ ''%'') (pat @ post)"
    by (cases "pat @ post") simp_all
  then have "like (CHR ''%'' # pat @ ''%'') (pre @ pat @ post)"
    by (rule like_percent_skip)
  then show ?thesis
    by (simp add: s)
qed

text \<open>Without wildcards in the pattern, the \<open>LIKE\<close> match is containment.\<close>

lemma like_literal_prefix:
  assumes "CHR ''%'' \<notin> set pat" and "CHR ''_'' \<notin> set pat" and "like (pat @ rest) s"
  shows "\<exists>t. s = pat @ t \<and> like rest t"
  using assms
proof (induction pat arbitrary: s)
  case Nil
  then show ?case by simp
next
  case (Cons c pat)
  from Cons.prems obtain t where s: "s = c # t" and l: "like (pat @ rest) t"
    by (cases s) (auto split: if_splits)
  from Cons.IH [OF _ _ l] Cons.prems(1,2) obtain u where "t = pat @ u" and "like rest u"
    by auto
  with s show ?case by simp
qed

lemma like_percent_split: "like (CHR ''%'' # ps) s \<Longrightarrow> \<exists>pre t. s = pre @ t \<and> like ps t"
proof (induction s)
  case Nil
  then have "like ps []" by simp
  then show ?case by blast
next
  case (Cons c s)
  from Cons.prems have "like ps (c # s) \<or> like (CHR ''%'' # ps) s"
    by simp
  then show ?case
  proof
    assume "like ps (c # s)"
    then have "c # s = [] @ (c # s) \<and> like ps (c # s)" by simp
    then show ?thesis by blast
  next
    assume "like (CHR ''%'' # ps) s"
    from Cons.IH [OF this] obtain pre t where "s = pre @ t" and "like ps t"
      by blast
    then have "c # s = (c # pre) @ t \<and> like ps t" by simp
    then show ?thesis by blast
  qed
qed

lemma like_imp_sublist:
  assumes "CHR ''%'' \<notin> set pat" and "CHR ''_'' \<notin> set pat"
    and "like (''%'' @ pat @ ''%'') s"
  shows "sublist pat s"
proof -
  from assms(3) have "like (CHR ''%'' # pat @ ''%'') s" by simp
  from like_percent_split [OF this] obtain pre t where s: "s = pre @ t"
    and l: "like (pat @ ''%'') t"
    by blast
  from like_literal_prefix [OF assms(1,2) l] obtain u where "t = pat @ u"
    by blast
  with s show ?thesis
    by (auto simp: sublist_def)
qed

subsection \<open>Creating a purchase\<close>

lemma transport_description_contains:
  "sublist (''purchase from '' @ seller) (transport_description seller service)"
proof -
  have "transport_description seller service =
          ''Transport cost for '' @ (''purchase from '' @ seller) @
          (case service of None \<Rightarrow> [] | Some s \<Rightarrow> if s \<noteq> [] then '' ('' @ s @ '')'' else [])"
    by (simp add: transport_description_def)
  then show ?thesis
    unfolding sublist_def by blast
qed

lemma transport_description_like:
  "like (''%purchase from '' @ seller @ ''%'') (transport_description seller service)"
  using sublist_imp_like [OF transport_description_contains, of seller service] by simp

text \<open>
  Claim C4. Creating a purchase succeeds and appends one purchase row, with a new id, the
  request's fields, and \<open>total_purchase_cost = quantity * price_per_unit + transport_cost\<close>.
  If \<open>transport_cost > 0\<close> it also appends exactly one expense, of category Transport,
  dated as the purchase, of amount \<open>transport_cost\<close>, whose description contains
  \<open>purchase from <seller_name>\<close> (and is found by the lookup the update handler uses);
  otherwise, in particular when \<open>transport_cost = 0\<close>, the expenses are unchanged. No
  other table changes.
\<close>

theorem create_purchase_effect:
  "\<exists>p d'. create_purchase d purchase = (Inr p, d') \<and>
     db.purchases d' = db.purchases d @ [p] \<and>
     Purchase.id p \<notin> set (map Purchase.id (db.purchases d)) \<and>
     Purchase.date p = PurchaseCreate.date purchase \<and>
     Purchase.seller_name p = PurchaseCreate.seller_name purchase \<and>
     Purchase.quantity p = PurchaseCreate.quantity purchase \<and>
     Purchase.price_per_unit p = PurchaseCreate.price_per_unit purchase \<and>
     Purchase.transport_cost p = PurchaseCreate.transport_cost purchase \<and>
     Purchase.total_purchase_cost p =
       PurchaseCreate.quantity purchase * PurchaseCreate.price_per_unit purchase
       + PurchaseCreate.transport_cost purchase \<and>
     (0 < PurchaseCreate.transport_cost purchase \<longrightarrow>
        (\<exists>e s. db.expenses d' = db.expenses d @ [e] \<and>
           Expense.id e \<notin> set (map Expense.id (db.expenses d)) \<and>
           Expense.category e = TRANSPORT \<and>
           Expense.date e = PurchaseCreate.date purchase \<and>
           Expense.amount e = PurchaseCreate.transport_cost purchase \<and>
           Expense.description e = Some s \<and>
           sublist (''purchase from '' @ PurchaseCreate.seller_name purchase) s \<and>
           linked_expense p e)) \<and>
     (\<not> 0 < PurchaseCreate.transport_cost purchase \<longrightarrow> db.expenses d' = db.expenses d) \<and>
     db.buyers d' = db.buyers d \<and> db.sales d' = db.sales d \<and>
     db.sale_items d' = db.sale_items d \<and> db.payments d' = db.payments d \<and>
     db.product_types d' = db.product_types d"
proof -
  define p where "p =
     \<lparr> Purchase.id = next_id (map Purchase.id (db.purchases d)),
       date = PurchaseCreate.date purchase,
       seller_name = PurchaseCreate.seller_name purchase,
       seller_phone = PurchaseCreate.seller_phone purchase,
       pickup_location = PurchaseCreate.pickup_location purchase,
       scrap_type = None,
       transport_service = PurchaseCreate.transport_service purchase,
       transport_cost = PurchaseCreate.transport_cost purchase,
       quantity = PurchaseCreate.quantity purchase,
       unit = Some (PurchaseCreate.unit purchase),
       price_per_unit = PurchaseCreate.price_per_unit purchase,
       total_purchase_cost =
         PurchaseCreate.quantity purchase * PurchaseCreate.price_per_unit purchase
         + PurchaseCreate.transport_cost purchase,
       notes = PurchaseCreate.notes purchase \<rparr>"
  define s where "s = transport_description (PurchaseCreate.seller_name purchase)
     (PurchaseCreate.transport_service purchase)"
  define e where "e =
     \<lparr> Expense.id = next_id (map Expense.id (db.expenses d)),
       date = PurchaseCreate.date purchase,
       category = TRANSPORT,
       amount = PurchaseCreate.transport_cost purchase,
       description = Some s \<rparr>"
  define d1 where "d1 = d\<lparr>db.purchases := db.purchases d @ [p]\<rparr>"
  define d' where "d' =
     (if 0 < PurchaseCreate.transport_cost purchase
      then d1\<lparr>db.expenses := db.expenses d1 @ [e]\<rparr> else d1)"
  have ret: "create_purchase d purchase = (Inr p, d')"
    by (simp add: create_purchase_def Let_def p_def s_def e_def d1_def d'_def)
  have fresh_p: "Purchase.id p \<notin> set (map Purchase.id (db.purchases d))"
    using next_id_fresh [of "map Purchase.id (db.purchases d)"] by (simp add: p_def)
  have fresh_e: "Expense.id e \<notin> set (map Expense.id (db.expenses d))"
    using next_id_fresh [of "map Expense.id (db.expenses d)"] by (simp add: e_def)
  have contains: "sublist (''purchase from '' @ PurchaseCreate.seller_name purchase) s"
    unfolding s_def by (rule transport_description_contains)
  have seller: "Purchase.seller_name p = PurchaseCreate.seller_name purchase"
    and date: "Purchase.date p = PurchaseCreate.date purchase"
    by (simp_all add: p_def)
  have e_fields: "Expense.category e = TRANSPORT"
    "Expense.date e = PurchaseCreate.date purchase"
    "Expense.amount e = PurchaseCreate.transport_cost purchase"
    "Expense.description e = Some s"
    by (simp_all add: e_def)
  have linked: "linked_expense p e"
    unfolding linked_expense_def e_fields seller date s_def
    using transport_description_like by simp
  have tables: "db.purchases d' = db.purchases d @ [p]" "db.buyers d' = db.buyers d"
    "db.sales d' = db.sales d" "db.sale_items d' = db.sale_items d"
    "db.payments d' = db.payments d" "db.product_types d' = db.product_types d"
    by (simp_all add: d'_def d1_def)
  have with_cost: "0 < PurchaseCreate.transport_cost purchase \<longrightarrow>
     (\<exists>e s. db.expenses d' = db.expenses d @ [e] \<and>
        Expense.id e \<notin> set (map Expense.id (db.expenses d)) \<and>
        Expense.category e = TRANSPORT \<and>
        Expense.date e = PurchaseCreate.date purchase \<and>
        Expense.amount e = PurchaseCreate.transport_cost purchase \<and>
        Expense.description e = Some s \<and>
        sublist (''purchase from '' @ PurchaseCreate.seller_name purchase) s \<and>
        linked_expense p e)"
  proof
    assume "0 < PurchaseCreate.transport_cost purchase"
    then have "db.expenses d' = db.expenses d @ [e]"
      by (simp add: d'_def d1_def)
    with fresh_e e_fields contains linked show "\<exists>e s. db.expenses d' = db.expenses d @ [e] \<and>
        Expense.id e \<notin> set (map Expense.id (db.expenses d)) \<and>
        Expense.category e = TRANSPORT \<and>
        Expense.date e = PurchaseCreate.date purchase \<and>
        Expense.amount e = PurchaseCreate.transport_cost purchase \<and>
        Expense.description e = Some s \<and>
        sublist (''purchase from '' @ PurchaseCreate.seller_name purchase) s \<and>
        linked_expense p e"
      by blast
  qed
  have without_cost: "\<not> 0 < PurchaseCreate.transport_cost purchase \<longrightarrow>
     db.expenses d' = db.expenses d"
    by (simp add: d'_def d1_def)
  have p_fields: "Purchase.quantity p = PurchaseCreate.quantity purchase"
    "Purchase.price_per_unit p = PurchaseCreate.price_per_unit purchase"
    "Purchase.transport_cost p = PurchaseCreate.transport_cost purchase"
    "Purchase.total_purchase_cost p =
       PurchaseCreate.quantity purchase * PurchaseCreate.price_per_unit purchase
       + PurchaseCreate.transport_cost purchase"
    by (simp_all add: p_def)
  from ret tables fresh_p date seller p_fields with_cost without_cost show ?thesis
    by blast
qed

text \<open>
  The purchase from Acme with a transport cost of 50 is stored with a total cost of
  10 * 5 + 50 = 100 and leaves exactly one expense, of 50, described
  \<open>Transport cost for purchase from Acme\<close>; the same purchase without transport is stored
  with a total cost of 50 and leaves no expense.
\<close>

theorem create_purchase_effect_witness:
  "(\<exists>p d' e. create_purchase example_db acme_purchase = (Inr p, d') \<and>
      Purchase.total_purchase_cost p = 100 \<and>
      db.expenses d' = [e] \<and>
      Expense.category e = TRANSPORT \<and>
      Expense.date e = (2024, 3, 1) \<and>
      Expense.amount e = 50 \<and>
      Expense.description e = Some ''Transport cost for purchase from Acme'') \<and>
   (\<exists>p d'. create_purchase example_db acme_purchase_free = (Inr p, d') \<and>
      Purchase.total_purchase_cost p = 50 \<and>
      db.expenses d' = [])"
proof -
  have ex: "db.expenses example_db = []"
    by (simp add: example_db_def)
  have a: "PurchaseCreate.transport_cost acme_purchase = 50"
    "PurchaseCreate.quantity acme_purchase = 10"
    "PurchaseCreate.price_per_unit acme_purchase = 5"
    "PurchaseCreate.date acme_purchase = (2024, 3, 1)"
    by (simp_all add: acme_purchase_def)
  have f: "PurchaseCreate.transport_cost acme_purchase_free = 0"
    "PurchaseCreate.quantity acme_purchase_free = 10"
    "PurchaseCreate.price_per_unit acme_purchase_free = 5"
    by (simp_all add: acme_purchase_free_def acme_purchase_def)
  have desc: "\<And>e d'. create_purchase example_db acme_purchase = (Inr p, d') \<Longrightarrow>
      db.expenses d' = [e] \<Longrightarrow>
      Expense.description e = Some ''Transport cost for purchase from Acme''" for p
    by (auto simp: create_purchase_def Let_def acme_purchase_def example_db_def
        transport_description_def)
  from create_purchase_effect [of example_db acme_purchase] ex a
  obtain p d' e where 1: "create_purchase example_db acme_purchase = (Inr p, d')"
    "Purchase.total_purchase_cost p = 100" "db.expenses d' = [e]"
    "Expense.category e = TRANSPORT" "Expense.date e = (2024, 3, 1)" "Expense.amount e = 50"
    by auto
  from create_purchase_effect [of example_db acme_purchase_free] ex f
  obtain q d'' where 2: "create_purchase example_db acme_purchase_free = (Inr q, d'')"
    "Purchase.total_purchase_cost q = 50" "db.expenses d'' = []"
    by auto
  from 1 desc [OF 1(1) 1(3)] 2 show ?thesis
    by blast
qed

subsection \<open>Creating a sale\<close>

lemma fold_add_sum:
  "fold (\<lambda>item acc. acc + f item) items (a::real) = a + sum_list (map f items)"
  by (induction items arbitrary: a) simp_all

text \<open>The loop over the items appends one row per item, in order, and nothing else.\<close>

lemma add_sale_items_appends:
  "\<exists>new. add_sale_items sid items table = table @ new \<and>
     length new = length items \<and>
     map SaleItem.sale_id new = replicate (length items) sid \<and>
     map SaleItem.product_type_id new = map SaleItemCreate.product_type_id items \<and>
     map SaleItem.quantity new = map SaleItemCreate.quantity items \<and>
     map SaleItem.price_per_unit new = map SaleItemCreate.price_per_unit items \<and>
     map SaleItem.total_price new =
       map (\<lambda>i. SaleItemCreate.quantity i * SaleItemCreate.price_per_unit i) items"
proof (induction items arbitrary: table)
  case Nil
  then show ?case by simp
next
  case (Cons item items)
  define row where "row =
     \<lparr> SaleItem.id = next_id (map SaleItem.id table),
       sale_id = sid,
       product_type_id = SaleItemCreate.product_type_id item,
       quantity = SaleItemCreate.quantity item,
       unit = Some (SaleItemCreate.unit item),
       price_per_unit = SaleItemCreate.price_per_unit item,
       total_price = SaleItemCreate.quantity item * SaleItemCreate.price_per_unit item \<rparr>"
  from Cons.IH [of "table @ [row]"] obtain new where
    new: "add_sale_items sid items (table @ [row]) = (table @ [row]) @ new"
      "length new = length items"
      "map SaleItem.sale_id new = replicate (length items) sid"
      "map SaleItem.product_type_id new = map SaleItemCreate.product_type_id items"
      "map SaleItem.quantity new = map SaleItemCreate.quantity items"
      "map SaleItem.price_per_unit new = map SaleItemCreate.price_per_unit items"
      "map SaleItem.total_price new =
         map (\<lambda>i. SaleItemCreate.quantity i * SaleItemCreate.price_per_unit i) items"
    by blast
  have "add_sale_items sid (item # items) table = table @ (row # new)"
    using new(1) by (simp add: row_def)
  moreover have "length (row # new) = length (item # items)"
    using new(2) by simp
  moreover have "map SaleItem.sale_id (row # new) = replicate (length (item # items)) sid"
    using new(3) by (simp add: row_def)
  moreover have "map SaleItem.product_type_id (row # new) =
      map SaleItemCreate.product_type_id (item # items)"
    using new(4) by (simp add: row_def)
  moreover have "map SaleItem.quantity (row # new) = map SaleItemCreate.quantity (item # items)"
    using new(5) by (simp add: row_def)
  moreover have "map SaleItem.price_per_unit (row # new) =
      map SaleItemCreate.price_per_unit (item # items)"
    using new(6) by (simp add: row_def)
  moreover have "map SaleItem.total_price (row # new) =
      map (\<lambda>i. SaleItemCreate.quantity i * SaleItemCreate.price_per_unit i) (item # items)"
    using new(7) by (simp add: row_def)
  ultimately show ?case
    by blast
qed

text \<open>
  Claim C6. Unless the engine enforces foreign keys and the request names a missing buyer
  or product type (then the request is refused and nothing is stored), creating a sale
  appends one sale row with a new id, the request's fields and
  \<open>total_amount = \<Sum> quantity * price_per_unit\<close> over the items; appends one \<open>SaleItem\<close> row
  per item, in order, each with the sale's id and \<open>total_price = quantity * price_per_unit\<close>;
  and appends one payment, with the sale's date and buyer and the amount
  \<open>payment_received_now\<close>, if and only if \<open>payment_received_now > 0\<close>. For the items
  (10 at 5, 2 at 3) the total is 56 and the two rows carry 50 and 6.
\<close>

theorem create_sale_effect:
  "(enforce_fk \<and>
      (\<not> buyer_exists d (SaleCreate.buyer_id sale) \<or>
       \<not> list_all (\<lambda>item. product_type_exists d (SaleItemCreate.product_type_id item))
            (SaleCreate.sale_items sale)) \<longrightarrow>
      create_sale enforce_fk d sale = (Inl IntegrityError, d)) \<and>
   (\<not> (enforce_fk \<and>
      (\<not> buyer_exists d (SaleCreate.buyer_id sale) \<or>
       \<not> list_all (\<lambda>item. product_type_exists d (SaleItemCreate.product_type_id item))
            (SaleCreate.sale_items sale))) \<longrightarrow>
      (\<exists>s d' new.
         create_sale enforce_fk d sale = (Inr s, d') \<and>
         db.sales d' = db.sales d @ [s] \<and>
         Sale.id s \<notin> set (map Sale.id (db.sales d)) \<and>
         Sale.date s = SaleCreate.date sale \<and>
         Sale.buyer_id s = SaleCreate.buyer_id sale \<and>
         Sale.payment_type s = SaleCreate.payment_type sale \<and>
         Sale.payment_received_now s = SaleCreate.payment_received_now sale \<and>
         Sale.total_amount s =
           sum_list (map (\<lambda>i. SaleItemCreate.quantity i * SaleItemCreate.price_per_unit i)
             (SaleCreate.sale_items sale)) \<and>
         db.sale_items d' = db.sale_items d @ new \<and>
         length new = length (SaleCreate.sale_items sale) \<and>
         map SaleItem.sale_id new = replicate (length (SaleCreate.sale_items sale)) (Sale.id s) \<and>
         map SaleItem.product_type_id new =
           map SaleItemCreate.product_type_id (SaleCreate.sale_items sale) \<and>
         map SaleItem.quantity new = map SaleItemCreate.quantity (SaleCreate.sale_items sale) \<and>
         map SaleItem.price_per_unit new =
           map SaleItemCreate.price_per_unit (SaleCreate.sale_items sale) \<and>
         map SaleItem.total_price new =
           map (\<lambda>i. SaleItemCreate.quantity i * SaleItemCreate.price_per_unit i)
             (SaleCreate.sale_items sale) \<and>
         (map (\<lambda>i. (SaleItemCreate.quantity i, SaleItemCreate.price_per_unit i))
              (SaleCreate.sale_items sale) = [(10, 5), (2, 3)] \<longrightarrow>
            Sale.total_amount s = 56 \<and> map SaleItem.total_price new = [50, 6]) \<and>
         (0 < SaleCreate.payment_received_now sale \<longrightarrow>
            (\<exists>pay. db.payments d' = db.payments d @ [pay] \<and>
               Payment.date pay = SaleCreate.date sale \<and>
               Payment.buyer_id pay = SaleCreate.buyer_id sale \<and>
               Payment.amount pay = SaleCreate.payment_received_now sale)) \<and>
         (\<not> 0 < SaleCreate.payment_received_now sale \<longrightarrow> db.payments d' = db.payments d) \<and>
         db.buyers d' = db.buyers d \<and> db.purchases d' = db.purchases d \<and>
         db.expenses d' = db.expenses d \<and> db.product_types d' = db.product_types d))"
  (is "(?refused \<longrightarrow> _) \<and> (\<not> ?refused \<longrightarrow> (\<exists>s d' new. ?stored s d' new))")
proof (intro conjI impI)
  assume ?refused
  then show "create_sale enforce_fk d sale = (Inl IntegrityError, d)"
    by (simp add: create_sale_def Let_def)
next
  assume ok: "\<not> ?refused"
  let ?items = "SaleCreate.sale_items sale"
  let ?line_total = "\<lambda>i. SaleItemCreate.quantity i * SaleItemCreate.price_per_unit i"
  define s where "s =
     \<lparr> Sale.id = next_id (map Sale.id (db.sales d)),
       date = SaleCreate.date sale,
       buyer_id = SaleCreate.buyer_id sale,
       payment_type = SaleCreate.payment_type sale,
       payment_received_now = SaleCreate.payment_received_now sale,
       total_amount = sum_list (map ?line_total ?items),
       notes = SaleCreate.notes sale \<rparr>"
  from add_sale_items_appends [of "Sale.id s" ?items "db.sale_items d"] obtain new where
    new: "add_sale_items (Sale.id s) ?items (db.sale_items d) = db.sale_items d @ new"
      "length new = length ?items"
      "map SaleItem.sale_id new = replicate (length ?items) (Sale.id s)"
      "map SaleItem.product_type_id new = map SaleItemCreate.product_type_id ?items"
      "map SaleItem.quantity new = map SaleItemCreate.quantity ?items"
      "map SaleItem.price_per_unit new = map SaleItemCreate.price_per_unit ?items"
      "map SaleItem.total_price new = map ?line_total ?items"
    by blast
  define d2 where "d2 = d\<lparr>db.sales := db.sales d @ [s], db.sale_items := db.sale_items d @ new\<rparr>"
  define pay where "pay =
     \<lparr> Payment.id = next_id (map Payment.id (db.payments d)),
       date = SaleCreate.date sale,
       buyer_id = SaleCreate.buyer_id sale,
       amount = SaleCreate.payment_received_now sale,
       payment_method = Some ''Cash'',
       notes = Some (''Payment for Sale #'' @ show_nat (Sale.id s)) \<rparr>"
  define d' where "d' =
     (if 0 < SaleCreate.payment_received_now sale
      then d2\<lparr>db.payments := db.payments d @ [pay]\<rparr> else d2)"
  have sid: "Sale.id s = next_id (map Sale.id (db.sales d))"
    by (simp add: s_def)
  have ret: "create_sale enforce_fk d sale = (Inr s, d')"
    using ok new(1) unfolding sid
    by (simp add: create_sale_def Let_def fold_add_sum s_def d2_def pay_def d'_def)
  have fresh: "Sale.id s \<notin> set (map Sale.id (db.sales d))"
    unfolding sid by (rule next_id_fresh)
  have s_fields: "Sale.date s = SaleCreate.date sale"
    "Sale.buyer_id s = SaleCreate.buyer_id sale"
    "Sale.payment_type s = SaleCreate.payment_type sale"
    "Sale.payment_received_now s = SaleCreate.payment_received_now sale"
    "Sale.total_amount s = sum_list (map ?line_total ?items)"
    by (simp_all add: s_def)
  have tables: "db.sales d' = db.sales d @ [s]" "db.sale_items d' = db.sale_items d @ new"
    "db.buyers d' = db.buyers d" "db.purchases d' = db.purchases d"
    "db.expenses d' = db.expenses d" "db.product_types d' = db.product_types d"
    by (simp_all add: d'_def d2_def)
  have example: "map (\<lambda>i. (SaleItemCreate.quantity i, SaleItemCreate.price_per_unit i)) ?items
        = [(10, 5), (2, 3)] \<longrightarrow>
      Sale.total_amount s = 56 \<and> map SaleItem.total_price new = [50, 6]"
  proof
    assume a: "map (\<lambda>i. (SaleItemCreate.quantity i, SaleItemCreate.price_per_unit i)) ?items
        = [(10, 5), (2, 3)]"
    have "map ?line_total ?items =
        map (\<lambda>qp. fst qp * snd qp)
          (map (\<lambda>i. (SaleItemCreate.quantity i, SaleItemCreate.price_per_unit i)) ?items)"
      by simp
    also have "\<dots> = [50, 6]"
      unfolding a by simp
    finally have v: "map ?line_total ?items = [50, 6]" .
    show "Sale.total_amount s = 56 \<and> map SaleItem.total_price new = [50, 6]"
      by (simp add: s_fields(5) new(7) v)
  qed
  have paid: "0 < SaleCreate.payment_received_now sale \<longrightarrow>
      (\<exists>pay. db.payments d' = db.payments d @ [pay] \<and>
         Payment.date pay = SaleCreate.date sale \<and>
         Payment.buyer_id pay = SaleCreate.buyer_id sale \<and>
         Payment.amount pay = SaleCreate.payment_received_now sale)"
  proof
    assume "0 < SaleCreate.payment_received_now sale"
    then have "db.payments d' = db.payments d @ [pay] \<and>
         Payment.date pay = SaleCreate.date sale \<and>
         Payment.buyer_id pay = SaleCreate.buyer_id sale \<and>
         Payment.amount pay = SaleCreate.payment_received_now sale"
      by (simp add: d'_def d2_def pay_def)
    then show "\<exists>pay. db.payments d' = db.payments d @ [pay] \<and>
         Payment.date pay = SaleCreate.date sale \<and>
         Payment.buyer_id pay = SaleCreate.buyer_id sale \<and>
         Payment.amount pay = SaleCreate.payment_received_now sale"
      by blast
  qed
  have unpaid: "\<not> 0 < SaleCreate.payment_received_now sale \<longrightarrow> db.payments d' = db.payments d"
    by (simp add: d'_def d2_def)
  have "?stored s d' new"
    by (intro conjI; fact)
  then show "\<exists>s d' new. ?stored s d' new"
    by (intro exI)
qed

text \<open>
  The sale of (10 at 5, 2 at 3) to Asha with 20 received: once the product type exists it
  is stored with total 56, item rows of 50 and 6, and a payment of 20 by Asha on the
  sale's date; on the database without the product type an engine that enforces foreign
  keys refuses it.
\<close>

theorem create_sale_effect_witness:
  "buyer_exists shop_db 1 \<and>
   list_all (\<lambda>item. product_type_exists shop_db (SaleItemCreate.product_type_id item))
     (SaleCreate.sale_items two_item_sale) \<and>
   (\<exists>s d' i1 i2 pay.
      create_sale True shop_db two_item_sale = (Inr s, d') \<and>
      Sale.total_amount s = 56 \<and>
      db.sale_items d' = [i1, i2] \<and>
      SaleItem.total_price i1 = 50 \<and> SaleItem.total_price i2 = 6 \<and>
      db.payments d' = [payment_jan, pay] \<and>
      Payment.amount pay = 20 \<and> Payment.buyer_id pay = 1 \<and>
      Payment.date pay = (2024, 3, 1)) \<and>
   create_sale True example_db two_item_sale = (Inl IntegrityError, example_db)"
proof -
  have be: "buyer_exists shop_db 1"
    by (simp add: buyer_exists_def shop_db_def example_db_def asha_def)
  have pe: "list_all (\<lambda>item. product_type_exists shop_db (SaleItemCreate.product_type_id item))
     (SaleCreate.sale_items two_item_sale)"
    by (simp add: product_type_exists_def shop_db_def two_item_sale_def)
  have npe: "\<not> list_all (\<lambda>item. product_type_exists example_db (SaleItemCreate.product_type_id item))
     (SaleCreate.sale_items two_item_sale)"
    by (simp add: product_type_exists_def example_db_def two_item_sale_def)
  have req: "SaleCreate.buyer_id two_item_sale = 1"
    "SaleCreate.date two_item_sale = (2024, 3, 1)"
    "SaleCreate.payment_received_now two_item_sale = 20"
    "map (\<lambda>i. (SaleItemCreate.quantity i, SaleItemCreate.price_per_unit i))
       (SaleCreate.sale_items two_item_sale) = [(10, 5), (2, 3)]"
    by (simp_all add: two_item_sale_def)
  have tabs: "db.sale_items shop_db = []" "db.payments shop_db = [payment_jan]"
    by (simp_all add: shop_db_def example_db_def)
  from create_sale_effect [of True shop_db two_item_sale] be pe req tabs
  obtain s d' new pay where 1: "create_sale True shop_db two_item_sale = (Inr s, d')"
    "Sale.total_amount s = 56" "db.sale_items d' = new" "map SaleItem.total_price new = [50, 6]"
    "db.payments d' = [payment_jan, pay]" "Payment.amount pay = 20" "Payment.buyer_id pay = 1"
    "Payment.date pay = (2024, 3, 1)"
    by auto
  from 1(4) obtain i1 i2 where 2: "new = [i1, i2]" "SaleItem.total_price i1 = 50"
    "SaleItem.total_price i2 = 6"
    by (auto simp: map_eq_Cons_conv)
  from create_sale_effect [of True example_db two_item_sale] npe
  have 3: "create_sale True example_db two_item_sale = (Inl IntegrityError, example_db)"
    by blast
  from be pe 1 2 3 show ?thesis
    by blast
qed

subsection \<open>Updating a sale\<close>

lemma map_update_first_same:
  assumes "find P xs = Some x" and "f y = f x"
  shows "map f (update_first P (\<lambda>_. y) xs) = map f xs"
  using assms by (induction xs) (auto split: if_splits)

lemma map_filter_update_first_same:
  assumes "find P xs = Some x" and "f y = f x" and "Q y = Q x"
  shows "map f (filter Q (update_first P (\<lambda>_. y) xs)) = map f (filter Q xs)"
  using assms by (induction xs) (auto split: if_splits)

text \<open>
  Claim C10. Updating a sale either fails and leaves the database as it was (no such sale;
  or, where the engine enforces foreign keys, a buyer that does not exist), or rewrites
  one row of the sales table and nothing else: the sale keeps its id and its
  \<open>total_amount\<close>, each of \<open>date\<close>, \<open>buyer_id\<close>, \<open>payment_type\<close>, \<open>payment_received_now\<close> and
  \<open>notes\<close> takes the request's value if the request sets it and keeps its own otherwise,
  and the sale items, the payments and every other table are untouched. So an update that
  does not move the sale to another buyer, one that only changes \<open>payment_received_now\<close>
  in particular, leaves every buyer's payments and outstanding balance as they were.
\<close>

theorem update_sale_frame:
  assumes "update_sale enforce_fk d sid sale_update = (res, d')"
  shows "db.sale_items d' = db.sale_items d \<and> db.payments d' = db.payments d \<and>
     db.buyers d' = db.buyers d \<and> db.purchases d' = db.purchases d \<and>
     db.expenses d' = db.expenses d \<and> db.product_types d' = db.product_types d \<and>
     map Sale.id (db.sales d') = map Sale.id (db.sales d) \<and>
     map Sale.total_amount (db.sales d') = map Sale.total_amount (db.sales d) \<and>
     (find (\<lambda>s. Sale.id s = sid) (db.sales d) = None \<longrightarrow>
        res = Inl (HTTPException 404 ''Sale not found'')) \<and>
     (\<forall>e. res = Inl e \<longrightarrow> d' = d) \<and>
     (\<forall>s. find (\<lambda>s. Sale.id s = sid) (db.sales d) = Some s \<and>
          \<not> (enforce_fk \<and>
             \<not> buyer_exists d (dict_get (SaleUpdate.buyer_id sale_update) (Sale.buyer_id s))) \<longrightarrow>
        (\<exists>s'. res = Inr s' \<and>
           db.sales d' = update_first (\<lambda>s. Sale.id s = sid) (\<lambda>_. s') (db.sales d) \<and>
           Sale.id s' = Sale.id s \<and>
           Sale.total_amount s' = Sale.total_amount s \<and>
           Sale.date s' = dict_get (SaleUpdate.date sale_update) (Sale.date s) \<and>
           Sale.buyer_id s' = dict_get (SaleUpdate.buyer_id sale_update) (Sale.buyer_id s) \<and>
           Sale.payment_type s' =
             dict_get (SaleUpdate.payment_type sale_update) (Sale.payment_type s) \<and>
           Sale.payment_received_now s' =
             dict_get (SaleUpdate.payment_received_now sale_update)
               (Sale.payment_received_now s) \<and>
           Sale.notes s' = dict_get (SaleUpdate.notes sale_update) (Sale.notes s))) \<and>
     (SaleUpdate.buyer_id sale_update = None \<longrightarrow>
        (\<forall>b. Buyer_payments d' b = Buyer_payments d b \<and>
             Buyer_total_sales d' b = Buyer_total_sales d b \<and>
             Buyer_outstanding_balance d' b = Buyer_outstanding_balance d b))"
proof (cases "find (\<lambda>s. Sale.id s = sid) (db.sales d)")
  case None
  with assms have "res = Inl (HTTPException 404 ''Sale not found'')" and "d' = d"
    by (simp_all add: update_sale_def)
  with None show ?thesis
    by simp
next
  case (Some s)
  define s' where "s' = s
     \<lparr> Sale.date := dict_get (SaleUpdate.date sale_update) (Sale.date s),
       Sale.buyer_id := dict_get (SaleUpdate.buyer_id sale_update) (Sale.buyer_id s),
       Sale.payment_type := dict_get (SaleUpdate.payment_type sale_update) (Sale.payment_type s),
       Sale.payment_received_now :=
         dict_get (SaleUpdate.payment_received_now sale_update) (Sale.payment_received_now s),
       Sale.notes := dict_get (SaleUpdate.notes sale_update) (Sale.notes s) \<rparr>"
  have keep: "Sale.id s' = Sale.id s" "Sale.total_amount s' = Sale.total_amount s"
    by (simp_all add: s'_def)
  have bid: "Sale.buyer_id s' = dict_get (SaleUpdate.buyer_id sale_update) (Sale.buyer_id s)"
    by (simp add: s'_def)
  show ?thesis
  proof (cases "enforce_fk \<and> \<not> buyer_exists d (Sale.buyer_id s')")
    case True
    with assms Some have "res = Inl IntegrityError" and "d' = d"
      by (auto simp: update_sale_def Let_def s'_def split: if_splits)
    with Some True bid show ?thesis
      by simp
  next
    case False
    with assms Some have res: "res = Inr s'"
      and d': "d' = d\<lparr>db.sales := update_first (\<lambda>s. Sale.id s = sid) (\<lambda>_. s') (db.sales d)\<rparr>"
      by (auto simp: update_sale_def Let_def s'_def split: if_splits)
    have ids: "map Sale.id (db.sales d') = map Sale.id (db.sales d)"
      unfolding d' using map_update_first_same [OF Some keep(1)] by simp
    have totals: "map Sale.total_amount (db.sales d') = map Sale.total_amount (db.sales d)"
      unfolding d' using map_update_first_same [OF Some keep(2)] by simp
    have same_buyer: "SaleUpdate.buyer_id sale_update = None \<longrightarrow>
        (\<forall>b. Buyer_payments d' b = Buyer_payments d b \<and>
             Buyer_total_sales d' b = Buyer_total_sales d b \<and>
             Buyer_outstanding_balance d' b = Buyer_outstanding_balance d b)"
    proof (intro impI allI)
      fix b
      assume "SaleUpdate.buyer_id sale_update = None"
      then have sb: "Sale.buyer_id s' = Sale.buyer_id s"
        by (simp add: bid dict_get_def)
      have p: "Buyer_payments d' b = Buyer_payments d b"
        by (simp add: Buyer_payments_def d')
      have "map Sale.total_amount (Buyer_sales d' b) = map Sale.total_amount (Buyer_sales d b)"
        unfolding Buyer_sales_def d'
        using map_filter_update_first_same
          [OF Some keep(2), of "\<lambda>x. Sale.buyer_id x = Buyer.id b"] sb
        by simp
      then have t: "Buyer_total_sales d' b = Buyer_total_sales d b"
        by (simp add: Buyer_total_sales_def)
      have "Buyer_outstanding_balance d' b = Buyer_outstanding_balance d b"
        by (simp add: Buyer_outstanding_balance_def Buyer_total_payments_def p t)
      with p t show "Buyer_payments d' b = Buyer_payments d b \<and>
             Buyer_total_sales d' b = Buyer_total_sales d b \<and>
             Buyer_outstanding_balance d' b = Buyer_outstanding_balance d b"
        by simp
    qed
    have fields: "Sale.date s' = dict_get (SaleUpdate.date sale_update) (Sale.date s)"
      "Sale.payment_type s' =
         dict_get (SaleUpdate.payment_type sale_update) (Sale.payment_type s)"
      "Sale.payment_received_now s' =
         dict_get (SaleUpdate.payment_received_now sale_update) (Sale.payment_received_now s)"
      "Sale.notes s' = dict_get (SaleUpdate.notes sale_update) (Sale.notes s)"
      by (simp_all add: s'_def)
    from Some res ids totals same_buyer keep bid fields show ?thesis
      by (simp add: d')
  qed
qed

text \<open>
  Setting \<open>payment_received_now\<close> of Asha's January sale to 30 succeeds; the sale keeps its
  total of 50, no payment is added, and Asha still owes 160.
\<close>

theorem update_sale_frame_witness:
  "\<exists>s' d'. update_sale True example_db 1 received_30 = (Inr s', d') \<and>
     Sale.payment_received_now s' = 30 \<and>
     Sale.total_amount s' = 50 \<and>
     db.payments d' = [payment_jan] \<and>
     db.sale_items d' = [] \<and>
     Buyer_outstanding_balance d' asha = Buyer_outstanding_balance example_db asha"
proof -
  obtain res d' where e: "update_sale True example_db 1 received_30 = (res, d')"
    by (cases "update_sale True example_db 1 received_30") blast
  have f: "find (\<lambda>s. Sale.id s = 1) (db.sales example_db) = Some sale_jan"
    by (simp add: example_db_def sale_jan_def)
  have u: "SaleUpdate.buyer_id received_30 = None"
    "SaleUpdate.payment_received_now received_30 = Some 30"
    by (simp_all add: received_30_def)
  have b: "buyer_exists example_db (dict_get (SaleUpdate.buyer_id received_30) (Sale.buyer_id sale_jan))"
    by (simp add: buyer_exists_def u dict_get_def sale_jan_def example_db_def asha_def)
  have t: "Sale.total_amount sale_jan = 50" "db.payments example_db = [payment_jan]"
    "db.sale_items example_db = []"
    by (simp_all add: sale_jan_def example_db_def)
  from update_sale_frame [OF e] f u b t
  obtain s' where "res = Inr s'" "Sale.payment_received_now s' = 30" "Sale.total_amount s' = 50"
    "db.payments d' = [payment_jan]" "db.sale_items d' = []"
    "Buyer_outstanding_balance d' asha = Buyer_outstanding_balance example_db asha"
    by (auto simp: dict_get_def)
  with e show ?thesis
    by blast
qed

subsection \<open>Updating a purchase\<close>

lemma length_update_first: "length (update_first P f xs) = length xs"
  by (induction xs) simp_all

lemma length_delete_first:
  "find P xs = Some x \<Longrightarrow> Suc (length (delete_first P xs)) = length xs"
  by (induction xs) (auto split: if_splits)

lemma find_update_first_const:
  "find P xs = Some x \<Longrightarrow> P y \<Longrightarrow> find P (update_first P (\<lambda>_. y) xs) = Some y"
  by (induction xs) (auto split: if_splits)

text \<open>
  For a seller name without \<open>%\<close> and \<open>_\<close> the lookup is what its author meant it to be: same
  date, category Transport, and a description that contains \<open>purchase from <seller_name>\<close>.
\<close>

lemma linked_expense_contains:
  assumes "CHR ''%'' \<notin> set (Purchase.seller_name p)"
    and "CHR ''_'' \<notin> set (Purchase.seller_name p)"
  shows "linked_expense p e =
     (Expense.date e = Purchase.date p \<and> Expense.category e = TRANSPORT \<and>
      (\<exists>s. Expense.description e = Some s \<and>
           sublist (''purchase from '' @ Purchase.seller_name p) s))"
proof -
  let ?pat = "''purchase from '' @ Purchase.seller_name p"
  have nw: "CHR ''%'' \<notin> set ?pat" "CHR ''_'' \<notin> set ?pat"
    using assms by auto
  have eq: "like (''%purchase from '' @ Purchase.seller_name p @ ''%'') s = sublist ?pat s" for s
  proof
    assume "like (''%purchase from '' @ Purchase.seller_name p @ ''%'') s"
    then have "like (''%'' @ ?pat @ ''%'') s" by simp
    then show "sublist ?pat s" by (rule like_imp_sublist [OF nw])
  next
    assume "sublist ?pat s"
    from sublist_imp_like [OF this] show "like (''%purchase from '' @ Purchase.seller_name p @ ''%'') s"
      by simp
  qed
  show ?thesis
    unfolding linked_expense_def eq by (cases "Expense.description e") simp_all
qed

lemma update_purchase_found:
  assumes "find (\<lambda>p. Purchase.id p = pid) (db.purchases d) = Some p"
    and "p' = updated_purchase p u"
    and "d1 = d\<lparr>db.purchases :=
                  update_first (\<lambda>p. Purchase.id p = pid) (\<lambda>_. p') (db.purchases d)\<rparr>"
    and "t = dict_get (PurchaseUpdate.transport_cost u) (Purchase.transport_cost p)"
    and "s = transport_description (Purchase.seller_name p') (Purchase.transport_service p')"
  shows "update_purchase d pid u =
     (Inr p',
      if PurchaseUpdate.transport_cost u \<noteq> None then
        (case find (linked_expense p') (db.expenses d) of
           Some existing \<Rightarrow>
             if 0 < t then
               d1\<lparr>db.expenses :=
                    update_first (linked_expense p')
                      (\<lambda>e. e\<lparr>Expense.amount := t, Expense.description := Some s\<rparr>)
                      (db.expenses d)\<rparr>
             else d1\<lparr>db.expenses := delete_first (linked_expense p') (db.expenses d)\<rparr>
         | None \<Rightarrow>
             if 0 < t then
               d1\<lparr>db.expenses := db.expenses d @
                    [\<lparr> Expense.id = next_id (map Expense.id (db.expenses d)),
                       date = Purchase.date p', category = TRANSPORT, amount = t,
                       description = Some s \<rparr>]\<rparr>
             else d1)
      else d1)"
  using assms
  by (simp add: update_purchase_def Let_def updated_purchase_def split: option.splits)

text \<open>
  What the handler does, in the terms of its own lookup. The total is derived again
  whenever the request sets the quantity, the unit price or the transport cost; the
  expenses change only if the request sets the transport cost; and then the first expense
  the lookup finds is rewritten in place (new cost positive) or deleted (otherwise), and
  if it finds none, one is added (new cost positive) or nothing happens.
\<close>

lemma update_purchase_policy:
  assumes "find (\<lambda>p. Purchase.id p = pid) (db.purchases d) = Some p"
  shows "\<exists>d'. update_purchase d pid u = (Inr (updated_purchase p u), d') \<and>
     db.purchases d' =
       update_first (\<lambda>p. Purchase.id p = pid) (\<lambda>_. updated_purchase p u) (db.purchases d) \<and>
     db.buyers d' = db.buyers d \<and> db.sales d' = db.sales d \<and>
     db.sale_items d' = db.sale_items d \<and> db.payments d' = db.payments d \<and>
     db.product_types d' = db.product_types d \<and>
     (PurchaseUpdate.transport_cost u = None \<longrightarrow> db.expenses d' = db.expenses d) \<and>
     (\<forall>t. PurchaseUpdate.transport_cost u = Some t \<longrightarrow>
        (\<forall>e. find (linked_expense (updated_purchase p u)) (db.expenses d) = Some e \<and> 0 < t \<longrightarrow>
           db.expenses d' =
             update_first (linked_expense (updated_purchase p u))
               (\<lambda>e. e\<lparr>Expense.amount := t,
                       Expense.description :=
                         Some (transport_description (Purchase.seller_name (updated_purchase p u))
                                 (Purchase.transport_service (updated_purchase p u)))\<rparr>)
               (db.expenses d) \<and>
           length (db.expenses d') = length (db.expenses d)) \<and>
        (\<forall>e. find (linked_expense (updated_purchase p u)) (db.expenses d) = Some e \<and> \<not> 0 < t \<longrightarrow>
           db.expenses d' = delete_first (linked_expense (updated_purchase p u)) (db.expenses d) \<and>
           Suc (length (db.expenses d')) = length (db.expenses d)) \<and>
        (find (linked_expense (updated_purchase p u)) (db.expenses d) = None \<and> 0 < t \<longrightarrow>
           (\<exists>new. db.expenses d' = db.expenses d @ [new] \<and>
              Expense.date new = Purchase.date (updated_purchase p u) \<and>
              Expense.category new = TRANSPORT \<and>
              Expense.amount new = t \<and>
              Expense.description new =
                Some (transport_description (Purchase.seller_name (updated_purchase p u))
                        (Purchase.transport_service (updated_purchase p u))))) \<and>
        (find (linked_expense (updated_purchase p u)) (db.expenses d) = None \<and> \<not> 0 < t \<longrightarrow>
           db.expenses d' = db.expenses d))"
proof -
  define p' where "p' = updated_purchase p u"
  define d1 where "d1 = d\<lparr>db.purchases :=
     update_first (\<lambda>p. Purchase.id p = pid) (\<lambda>_. p') (db.purchases d)\<rparr>"
  define t0 where "t0 = dict_get (PurchaseUpdate.transport_cost u) (Purchase.transport_cost p)"
  define s where "s = transport_description (Purchase.seller_name p') (Purchase.transport_service p')"
  note ret = update_purchase_found [OF assms p'_def d1_def t0_def s_def]
  show ?thesis
  proof (cases "PurchaseUpdate.transport_cost u")
    case None
    with ret have "update_purchase d pid u = (Inr p', d1)"
      by simp
    with None show ?thesis
      by (simp add: d1_def p'_def)
  next
    case (Some t)
    then have t0: "t0 = t"
      by (simp add: t0_def dict_get_def)
    show ?thesis
    proof (cases "find (linked_expense p') (db.expenses d)")
      case None
      show ?thesis
      proof (cases "0 < t")
        case True
        with ret Some None t0 have "update_purchase d pid u =
          (Inr p', d1\<lparr>db.expenses := db.expenses d @
                    [\<lparr> Expense.id = next_id (map Expense.id (db.expenses d)),
                       date = Purchase.date p', category = TRANSPORT, amount = t,
                       description = Some s \<rparr>]\<rparr>)"
          by simp
        with Some None True show ?thesis
          by (simp add: d1_def p'_def [symmetric] s_def)
      next
        case False
        with ret Some None t0 have "update_purchase d pid u = (Inr p', d1)"
          by simp
        with Some None False show ?thesis
          by (simp add: d1_def p'_def [symmetric])
      qed
    next
      case found: (Some e)
      show ?thesis
      proof (cases "0 < t")
        case True
        with ret Some found t0 have "update_purchase d pid u =
          (Inr p', d1\<lparr>db.expenses :=
                    update_first (linked_expense p')
                      (\<lambda>e. e\<lparr>Expense.amount := t, Expense.description := Some s\<rparr>)
                      (db.expenses d)\<rparr>)"
          by simp
        with Some found True show ?thesis
          by (simp add: d1_def p'_def [symmetric] s_def length_update_first)
      next
        case False
        with ret Some found t0 have "update_purchase d pid u =
          (Inr p', d1\<lparr>db.expenses := delete_first (linked_expense p') (db.expenses d)\<rparr>)"
          by simp
        with Some found False length_delete_first [OF found] show ?thesis
          by (simp add: d1_def p'_def [symmetric])
      qed
    qed
  qed
qed

text \<open>
  Claim C5. The claim describes the lookup as a description that contains
  \<open>purchase from <seller_name>\<close>. The handler asks the engine for
  \<open>LIKE '%purchase from <seller_name>%'\<close> and does not escape the seller's name, so a \<open>%\<close> or
  \<open>_\<close> in the name is a wildcard. After a purchase from \<open>AB\<close> with a transport cost of 40
  and a purchase from \<open>A_\<close> without transport, the only expense is the one for \<open>AB\<close>, and
  its description does not contain \<open>purchase from A_\<close>; by the claim, setting the
  transport cost of the second purchase to 75 finds no linked expense and creates one.
  The handler instead finds the expense for \<open>AB\<close> and overwrites its amount and its
  description: no expense is created, and the record of the 40 paid for \<open>AB\<close> is lost.
\<close>

theorem update_purchase_wildcard_seller:
  "map Purchase.seller_name (db.purchases wildcard_db) = [''AB'', ''A_''] \<and>
   map Purchase.id (db.purchases wildcard_db) = [1, 2] \<and>
   db.expenses wildcard_db =
     [\<lparr> Expense.id = 1, date = (2024, 3, 1), category = TRANSPORT, amount = 40,
        description = Some ''Transport cost for purchase from AB'' \<rparr>] \<and>
   \<not> sublist ''purchase from A_'' ''Transport cost for purchase from AB'' \<and>
   db.expenses (snd (update_purchase wildcard_db 2 cost_75)) =
     [\<lparr> Expense.id = 1, date = (2024, 3, 1), category = TRANSPORT, amount = 75,
        description = Some ''Transport cost for purchase from A_'' \<rparr>]"
proof -
  have w: "wildcard_db =
     \<lparr> product_types = [], buyers = [],
       purchases =
         [\<lparr> Purchase.id = 1, date = (2024, 3, 1), seller_name = ''AB'', seller_phone = None,
             pickup_location = None, scrap_type = None, transport_service = None,
             transport_cost = 40, quantity = 10, unit = Some ''kg'', price_per_unit = 5,
             total_purchase_cost = 90, notes = None \<rparr>,
          \<lparr> Purchase.id = 2, date = (2024, 3, 1), seller_name = ''A_'', seller_phone = None,
             pickup_location = None, scrap_type = None, transport_service = None,
             transport_cost = 0, quantity = 10, unit = Some ''kg'', price_per_unit = 5,
             total_purchase_cost = 50, notes = None \<rparr>],
       sales = [], sale_items = [], payments = [],
       expenses =
         [\<lparr> Expense.id = 1, date = (2024, 3, 1), category = TRANSPORT, amount = 40,
             description = Some ''Transport cost for purchase from AB'' \<rparr>] \<rparr>"
    by (simp add: wildcard_db_def create_purchase_def Let_def empty_db_def request_AB_def
        request_A_underscore_def next_id_def transport_description_def)
  have "\<not> sublist ''purchase from A_'' ''Transport cost for purchase from AB''"
    by (simp add: sublist_Cons_right)
  moreover have "db.expenses (snd (update_purchase wildcard_db 2 cost_75)) =
     [\<lparr> Expense.id = 1, date = (2024, 3, 1), category = TRANSPORT, amount = 75,
        description = Some ''Transport cost for purchase from A_'' \<rparr>]"
    unfolding w
    by (simp add: update_purchase_def Let_def cost_75_def dict_get_def linked_expense_def
        transport_description_def)
  ultimately show ?thesis
    by (simp add: w)
qed

text \<open>
  So the update leaves a single expense, as there was before, and its amount is 75: the
  expense the claim expects to be created does not exist, and the 40 for \<open>AB\<close> are gone.
\<close>

theorem update_purchase_wildcard_seller_witness:
  "length (db.expenses wildcard_db) = 1 \<and>
   map Expense.amount (db.expenses wildcard_db) = [40] \<and>
   length (db.expenses (snd (update_purchase wildcard_db 2 cost_75))) = 1 \<and>
   map Expense.amount (db.expenses (snd (update_purchase wildcard_db 2 cost_75))) = [75]"
  using update_purchase_wildcard_seller by simp

end
